theory Spec2Isabelle
  imports Complex_Main "HOL-Library.AList"
begin

section \<open>Numbers\<close>

text \<open>
  A JavaScript \<open>number\<close> is modelled as a real: rounding, \<open>NaN\<close> and the infinities are left
  out (the ability estimator, further down, has its own numbers with them). A division whose
  divisor is zero gives \<open>Infinity\<close> or \<open>NaN\<close> in JavaScript, values the
  reals do not have, so a division whose divisor the code does not keep away from zero is
  written with \<open>jsDiv\<close>, and \<open>None\<close> stands for that non-finite result. Where the code guards
  the divisor (a non-zero literal, \<open>x || 1e-9\<close>, a test just before) the model divides with
  \<open>/\<close>.
\<close>

definition jsDiv :: "real \<Rightarrow> real \<Rightarrow> real option" where
  "jsDiv x y = (if y = 0 then None else Some (x / y))"

text \<open>\<open>x || d\<close> on numbers: \<open>d\<close> when \<open>x\<close> is \<open>0\<close>, else \<open>x\<close>.\<close>

definition orElse :: "real \<Rightarrow> real \<Rightarrow> real" where
  "orElse x d = (if x = 0 then d else x)"

section \<open>Mastery engine (knowledge-graph-engine.ts, second part)\<close>

definition P_INIT :: real where "P_INIT = 0.3"
definition P_LEARN :: real where "P_LEARN = 0.09"
definition P_GUESS :: real where "P_GUESS = 0.2"
definition P_SLIP :: real where "P_SLIP = 0.1"

record MasteryState =
  pL :: real
  stability :: real
  reviewCount :: real
  lastReviewMs :: real

definition updateMastery :: "real \<Rightarrow> bool \<Rightarrow> real" where
  "updateMastery prevPL correct =
     (let pCorrect = prevPL * (1 - P_SLIP) + (1 - prevPL) * P_GUESS;
          pWrong = prevPL * P_SLIP + (1 - prevPL) * (1 - P_GUESS);
          pLGivenObs =
            (if correct then (prevPL * (1 - P_SLIP)) / orElse pCorrect (1 / 10 ^ 9)
             else (prevPL * P_SLIP) / orElse pWrong (1 / 10 ^ 9));
          pLNext = pLGivenObs + (1 - pLGivenObs) * P_LEARN
      in min 0.9999 (max 0.0001 pLNext))"

text \<open>
  \<open>updateStability\<close> reads the clock (\<open>Date.now()\<close>) when the answer is correct. The reading
  is the model's first argument \<open>now\<close>.
\<close>

definition updateStability :: "real \<Rightarrow> MasteryState \<Rightarrow> bool \<Rightarrow> MasteryState" where
  "updateStability now state correct =
     (if \<not> correct then state
      else
        let newStability = stability state * exp (0.1 * pL state)
        in state\<lparr> stability := min newStability 365,
                  reviewCount := reviewCount state + 1,
                  lastReviewMs := now \<rparr>)"

section \<open>Galaxy view: the second BKT update (unnamed/part_000)\<close>

definition BKT_P_LEARN :: real where "BKT_P_LEARN = 0.3"
definition BKT_P_GUESS :: real where "BKT_P_GUESS = 0.2"
definition BKT_P_SLIP :: real where "BKT_P_SLIP = 0.1"

text \<open>Neither divisor is guarded here, and the result is not clamped.\<close>

definition bktUpdate :: "real \<Rightarrow> bool \<Rightarrow> real option" where
  "bktUpdate p isCorrect =
     (let pCorrect = p * (1 - BKT_P_SLIP) + (1 - p) * BKT_P_GUESS;
          pWrong = p * BKT_P_SLIP + (1 - p) * (1 - BKT_P_GUESS)
      in case (if isCorrect then jsDiv (p * (1 - BKT_P_SLIP)) pCorrect
               else jsDiv (p * BKT_P_SLIP) pWrong) of
           None \<Rightarrow> None
         | Some pLGivenObs \<Rightarrow> Some (pLGivenObs + (1 - pLGivenObs) * BKT_P_LEARN))"

section \<open>Behavioural analyser (lms-store.ts, second part)\<close>

record BehaviorSignals =
  tabSwitches :: real
  pasteEvents :: real
  fastHardAnswers :: real
  totalQuestions :: real

record Breakdown =
  tab :: real
  paste :: real
  fastHard :: real

record CheatRiskResult =
  score :: real
  flagged :: bool
  breakdown :: Breakdown

text \<open>
  After the test for \<open>totalQuestions === 0\<close> there are three divisions; the third divisor is
  \<open>Math.max(1, ...)\<close>, the other two are \<open>totalQuestions * 2\<close> and \<open>totalQuestions\<close>.
\<close>

definition detectCheating :: "BehaviorSignals \<Rightarrow> CheatRiskResult option" where
  "detectCheating signals =
     (if totalQuestions signals = 0
      then Some \<lparr> score = 0, flagged = False,
                  breakdown = \<lparr> tab = 0, paste = 0, fastHard = 0 \<rparr> \<rparr>
      else
        case jsDiv (tabSwitches signals) (totalQuestions signals * 2) of
          None \<Rightarrow> None
        | Some tq \<Rightarrow>
            (case jsDiv (pasteEvents signals) (totalQuestions signals) of
               None \<Rightarrow> None
             | Some pq \<Rightarrow>
                 let tabScore = min 1 tq;
                     pasteScore = min 1 pq;
                     fastHardScore =
                       min 1 (fastHardAnswers signals / max 1 (totalQuestions signals * 0.3));
                     crs = 0.3 * tabScore + 0.3 * pasteScore + 0.4 * fastHardScore
                 in Some \<lparr> score = min 1 crs, flagged = (crs > 0.5),
                            breakdown = \<lparr> tab = tabScore, paste = pasteScore,
                                          fastHard = fastHardScore \<rparr> \<rparr>))"

datatype Mode = Exam | Practice

datatype Priority = Low | Medium | High

text \<open>
  The entries of \<open>reasons\<close> are message texts; a message that interpolates a number carries
  that number here instead of its decimal rendering (\<open>toFixed\<close>).
\<close>

datatype Reason =
    ExamMode  \<comment> \<open>'Exam mode - no Socratic interruptions'\<close>
  | ConceptMastered  \<comment> \<open>'Concept already mastered'\<close>
  | TimeConstraint  \<comment> \<open>'Time constraint < 60s'\<close>
  | GuessingDetected real  \<comment> \<open>'Guessing detected (P=...) - probe understanding'\<close>
  | WrongStreak real  \<comment> \<open>'Wrong on this concept ... times - likely misconception'\<close>
  | MasteryDropped real  \<comment> \<open>'Mastery dropped ...% - concept confusion'\<close>
  | LearningZone  \<comment> \<open>'In active learning zone - Socratic deepening'\<close>
  | LowConfidence real  \<comment> \<open>'Low confidence (...) despite correct answer - probe reasoning'\<close>

record SocraticDecision =
  shouldTrigger :: bool
  reasons :: "Reason list"
  priority :: Priority

text \<open>
  The function destructures its \<open>params\<close> object on entry; the model takes the eight fields
  as arguments, in the order of the parameter type. \<open>timeRemainingMs\<close> is optional: \<open>None\<close>
  is \<open>undefined\<close>. The five rules append to \<open>reasons\<close> and add to \<open>triggerScore\<close> in turn.
\<close>

definition shouldTriggerSocratic ::
  "Mode \<Rightarrow> bool \<Rightarrow> real \<Rightarrow> real \<Rightarrow> real \<Rightarrow> real \<Rightarrow> real \<Rightarrow> real option \<Rightarrow> SocraticDecision" where
  "shouldTriggerSocratic mode isCorrect currentPL prevPL wrongStreakOnConcept guessProbability
       confidenceScore timeRemainingMs =
     (if mode = Exam
      then \<lparr> shouldTrigger = False, reasons = [ExamMode], priority = Low \<rparr>
      else if currentPL > 0.9
      then \<lparr> shouldTrigger = False, reasons = [ConceptMastered], priority = Low \<rparr>
      else if (case timeRemainingMs of None \<Rightarrow> False | Some t \<Rightarrow> t < 60000)
      then \<lparr> shouldTrigger = False, reasons = [TimeConstraint], priority = Low \<rparr>
      else
        let (reasons1, score1) =
              (if guessProbability > 0.6 then ([GuessingDetected guessProbability], 3::int)
               else ([], 0));
            (reasons2, score2) =
              (if wrongStreakOnConcept \<ge> 2
               then (reasons1 @ [WrongStreak wrongStreakOnConcept], score1 + 3)
               else (reasons1, score1));
            deltaML = currentPL - prevPL;
            (reasons3, score3) =
              (if deltaML < - 0.15 then (reasons2 @ [MasteryDropped (deltaML * 100)], score2 + 2)
               else (reasons2, score2));
            (reasons4, score4) =
              (if currentPL \<ge> 0.4 \<and> currentPL \<le> 0.7 \<and> \<not> isCorrect
               then (reasons3 @ [LearningZone], score3 + 1)
               else (reasons3, score3));
            (reasons5, triggerScore) =
              (if confidenceScore < 0.3 \<and> isCorrect
               then (reasons4 @ [LowConfidence confidenceScore], score4 + 2)
               else (reasons4, score4))
        in \<lparr> shouldTrigger = (triggerScore \<ge> 2), reasons = reasons5,
             priority = (if triggerScore \<ge> 5 then High
                         else if triggerScore \<ge> 3 then Medium else Low) \<rparr>)"

section \<open>Item response theory (lms-store.ts, third part)\<close>

text \<open>
  The ability estimator multiplies likelihoods that can leave the range of a double, and the
  code then goes on with \<open>Infinity\<close> or \<open>NaN\<close>. Its numbers are therefore modelled with these
  values: \<open>Num x\<close> is the finite number \<open>x\<close>. \<open>ofReal\<close> brings the exact result of an
  operation into the range of a double: at or beyond \<open>2^1024 - 2^970\<close> it is an infinity, at
  or below \<open>2^-1075\<close> in magnitude it is 0; rounding inside the range is left out, and so is
  the sign of zero (a zero divisor counts as \<open>+0\<close>).
\<close>

datatype jsnum = Num real | PosInf | NegInf | NaN

definition overflowBound :: real where
  "overflowBound = 2 ^ 1024 - 2 ^ 970"

definition underflowBound :: real where
  "underflowBound = 1 / 2 ^ 1075"

definition ofReal :: "real \<Rightarrow> jsnum" where
  "ofReal r =
     (if r \<ge> overflowBound then PosInf
      else if r \<le> - overflowBound then NegInf
      else if \<bar>r\<bar> \<le> underflowBound then Num 0
      else Num r)"

fun numNeg :: "jsnum \<Rightarrow> jsnum" where
  "numNeg (Num x) = Num (- x)"
| "numNeg PosInf = NegInf"
| "numNeg NegInf = PosInf"
| "numNeg NaN = NaN"

fun numAdd :: "jsnum \<Rightarrow> jsnum \<Rightarrow> jsnum" where
  "numAdd (Num x) (Num y) = ofReal (x + y)"
| "numAdd NaN v = NaN"
| "numAdd u NaN = NaN"
| "numAdd PosInf NegInf = NaN"
| "numAdd NegInf PosInf = NaN"
| "numAdd PosInf v = PosInf"
| "numAdd u PosInf = PosInf"
| "numAdd NegInf v = NegInf"
| "numAdd u NegInf = NegInf"

definition numSub :: "jsnum \<Rightarrow> jsnum \<Rightarrow> jsnum" where
  "numSub u v = numAdd u (numNeg v)"

text \<open>An infinity times, or divided by, a finite number.\<close>

definition scaleInf :: "jsnum \<Rightarrow> real \<Rightarrow> jsnum" where
  "scaleInf i x = (if x > 0 then i else numNeg i)"

fun numMul :: "jsnum \<Rightarrow> jsnum \<Rightarrow> jsnum" where
  "numMul (Num x) (Num y) = ofReal (x * y)"
| "numMul NaN v = NaN"
| "numMul u NaN = NaN"
| "numMul (Num x) v = (if x = 0 then NaN else scaleInf v x)"
| "numMul u (Num y) = (if y = 0 then NaN else scaleInf u y)"
| "numMul PosInf v = v"
| "numMul NegInf v = numNeg v"

fun numDiv :: "jsnum \<Rightarrow> jsnum \<Rightarrow> jsnum" where
  "numDiv (Num x) (Num y) =
     (if y = 0 then (if x = 0 then NaN else if x > 0 then PosInf else NegInf)
      else ofReal (x / y))"
| "numDiv NaN v = NaN"
| "numDiv u NaN = NaN"
| "numDiv (Num x) v = Num 0"
| "numDiv u (Num y) = (if y = 0 then u else scaleInf u y)"
| "numDiv u v = NaN"

fun numExp :: "jsnum \<Rightarrow> jsnum" where
  "numExp (Num x) = ofReal (exp x)"
| "numExp PosInf = PosInf"
| "numExp NegInf = Num 0"
| "numExp NaN = NaN"

fun numLess :: "jsnum \<Rightarrow> jsnum \<Rightarrow> bool" where
  "numLess (Num x) (Num y) = (x < y)"
| "numLess NaN v = False"
| "numLess u NaN = False"
| "numLess u NegInf = False"
| "numLess NegInf v = True"
| "numLess PosInf v = False"
| "numLess u PosInf = True"

text \<open>\<open>Math.max\<close> and \<open>Math.min\<close> of two numbers: \<open>NaN\<close> when either is.\<close>

definition numMax :: "jsnum \<Rightarrow> jsnum \<Rightarrow> jsnum" where
  "numMax u v = (if u = NaN \<or> v = NaN then NaN else if numLess u v then v else u)"

definition numMin :: "jsnum \<Rightarrow> jsnum \<Rightarrow> jsnum" where
  "numMin u v = (if u = NaN \<or> v = NaN then NaN else if numLess v u then v else u)"

record IRTItem =
  item_id :: string
  irt_a :: jsnum
  irt_b :: jsnum
  irt_c :: jsnum

record IRTResponse =
  item :: IRTItem
  answered_correct :: bool

definition threeParamLogistic :: "jsnum \<Rightarrow> jsnum \<Rightarrow> jsnum \<Rightarrow> jsnum \<Rightarrow> jsnum" where
  "threeParamLogistic theta a b c =
     (let e = numExp (numMul (numNeg a) (numSub theta b))
      in numAdd c (numDiv (numSub (Num 1) c) (numAdd (Num 1) e)))"

definition GRID_SIZE :: nat where "GRID_SIZE = 41"

definition thetas :: "jsnum list" where
  "thetas =
     map (\<lambda>i. numAdd (Num (- 4))
                 (numDiv (numMul (Num 8) (Num (real i))) (Num (real (GRID_SIZE - 1)))))
         [0 ..< GRID_SIZE]"

definition prior :: "jsnum list" where
  "prior =
     map (\<lambda>t. numDiv (numExp (numMul (numMul (Num (- 0.5)) t) t)) (Num (sqrt (2 * pi))))
         thetas"

definition likelihood :: "IRTResponse list \<Rightarrow> jsnum list" where
  "likelihood responses =
     map (\<lambda>theta.
            foldl (\<lambda>acc r.
                     let p = threeParamLogistic theta (irt_a (item r)) (irt_b (item r))
                               (irt_c (item r))
                     in numMul acc (if answered_correct r then p else numSub (Num 1) p))
                  (Num 1) responses)
         thetas"

text \<open>\<open>thetas\<close>, \<open>likelihood\<close> and \<open>prior\<close> have the same length, so reading the three by
  one index is a zip.\<close>

definition unnormalized :: "IRTResponse list \<Rightarrow> jsnum list" where
  "unnormalized responses = map (\<lambda>(l, p). numMul l p) (zip (likelihood responses) prior)"

definition posteriorSum :: "IRTResponse list \<Rightarrow> jsnum" where
  "posteriorSum responses = foldl numAdd (Num 0) (unnormalized responses)"

definition updateTheta :: "IRTResponse list \<Rightarrow> jsnum \<Rightarrow> jsnum" where
  "updateTheta responses priorTheta =
     (if length responses = 0 then priorTheta
      else
        let s = posteriorSum responses
        in if numLess s (Num (1 / 10 ^ 15)) then priorTheta
           else
             let posterior = map (\<lambda>v. numDiv v s) (unnormalized responses);
                 eap = foldl (\<lambda>acc (theta, q). numAdd acc (numMul theta q)) (Num 0)
                             (zip thetas posterior)
             in numMax (Num (- 4)) (numMin (Num 4) eap))"

section \<open>Knowledge graph builder (knowledge-graph-engine.ts, first part)\<close>

subsection \<open>Strings and maps\<close>

text \<open>
  Concept names are taken to be ASCII: \<open>toLowerCase\<close> and \<open>toUpperCase\<close> change the letters
  \<open>A-Z\<close> and \<open>a-z\<close> and leave every other character as it is.
\<close>

definition toLowerChar :: "char \<Rightarrow> char" where
  "toLowerChar ch =
     (let n = (of_char ch :: nat) in if 65 \<le> n \<and> n \<le> 90 then char_of (n + 32) else ch)"

definition toUpperChar :: "char \<Rightarrow> char" where
  "toUpperChar ch =
     (let n = (of_char ch :: nat) in if 97 \<le> n \<and> n \<le> 122 then char_of (n - 32) else ch)"

definition toLowerCase :: "string \<Rightarrow> string" where
  "toLowerCase s = map toLowerChar s"

text \<open>
  A JavaScript \<open>Map\<close> keeps its keys in insertion order, and \<open>set\<close> on a key that is
  present replaces the value where it stands: an association list under \<open>AList.update\<close>.
  \<open>getOr0 m k\<close> is \<open>m.get(k) ?? 0\<close>.
\<close>

definition getOr0 :: "('k \<times> real) list \<Rightarrow> 'k \<Rightarrow> real" where
  "getOr0 m k = (case map_of m k of None \<Rightarrow> 0 | Some v \<Rightarrow> v)"

definition ALPHA :: real where "ALPHA = 0.5"
definition BETA :: real where "BETA = 0.3"
definition GAMMA :: real where "GAMMA = 0.2"

definition PREREQUISITE_STRENGTH :: "(string \<times> (string \<times> real) list) list" where
  "PREREQUISITE_STRENGTH =
     [(''limits'', [(''derivatives'', 0.95), (''continuity'', 0.85)]),
      (''derivatives'', [(''integration'', 0.90), (''differential equations'', 0.80)]),
      (''integration'', [(''differential equations'', 0.85)]),
      (''algebra'', [(''calculus'', 0.80), (''linear algebra'', 0.75)]),
      (''calculus'', [(''differential equations'', 0.80), (''statistics'', 0.60)]),
      (''linear algebra'', [(''statistics'', 0.70), (''algorithms'', 0.55)]),
      (''statistics'', [(''machine learning'', 0.80), (''probability'', 0.85)]),
      (''probability'', [(''statistics'', 0.75)]),
      (''kinematics'', [(''newton'' @ [CHR 0x27] @ ''s laws'', 0.90), (''energy'', 0.70)]),
      (''newton'' @ [CHR 0x27] @ ''s laws'',
         [(''energy'', 0.85), (''momentum'', 0.80), (''waves'', 0.60)]),
      (''energy'', [(''thermodynamics'', 0.70), (''waves'', 0.65)]),
      (''waves'', [(''optics'', 0.80), (''electromagnetism'', 0.60)]),
      (''data structures'', [(''algorithms'', 0.90), (''graph theory'', 0.75)]),
      (''algorithms'', [(''graph theory'', 0.70), (''machine learning'', 0.60)]),
      (''graph theory'', [(''algorithms'', 0.65)])]"

record SessionLog =
  concept :: string
  category :: string
  isCorrect :: bool
  responseTimeMs :: real
  masteryPL :: real
  timestamp :: real

subsection \<open>Edge weight\<close>

text \<open>\<open>PREREQUISITE_STRENGTH[x]?.[y]\<close>, for names that are not inherited keys (see below).\<close>

definition strengthEntry :: "string \<Rightarrow> string \<Rightarrow> real option" where
  "strengthEntry x y =
     (case map_of PREREQUISITE_STRENGTH x of None \<Rightarrow> None | Some row \<Rightarrow> map_of row y)"

text \<open>
  \<open>PREREQUISITE_STRENGTH\<close> and its rows are plain objects, so \<open>obj[k]\<close> also finds what they
  inherit from \<open>Object.prototype\<close>. A lower-cased name can be one of two inherited keys,
  \<open>constructor\<close> and \<open>__proto__\<close> (every other inherited name has a capital letter). What is
  found under such a key is a function or an object, not a strength, and what the arithmetic
  makes of it depends on the built-ins of the engine. For a pair of names one of which is
  such a key the model gives no result: \<open>prerequisiteStrength\<close> is \<open>None\<close> there, and so is
  everything computed from it.
\<close>

definition inheritedKey :: "string \<Rightarrow> bool" where
  "inheritedKey k = (k = ''constructor'' \<or> k = ''__proto__'')"

definition prerequisiteStrength :: "string \<Rightarrow> string \<Rightarrow> real option" where
  "prerequisiteStrength conceptA conceptB =
     (let a = toLowerCase conceptA; b = toLowerCase conceptB
      in if inheritedKey a \<or> inheritedKey b then None
         else case strengthEntry a b of
                Some v \<Rightarrow> Some v
              | None \<Rightarrow> (case strengthEntry b a of Some v \<Rightarrow> Some v | None \<Rightarrow> Some 0))"

text \<open>\<open>Math.floor(log.timestamp / 86400000)\<close>, the day bucket of a log.\<close>

definition dayOf :: "SessionLog \<Rightarrow> int" where
  "dayOf l = \<lfloor>timestamp l / 86400000\<rfloor>"

definition addToSessions :: "(int \<times> string set) list \<Rightarrow> SessionLog \<Rightarrow> (int \<times> string set) list" where
  "addToSessions sessions l =
     (let day = dayOf l;
          sessions1 = (if map_of sessions day = None then AList.update day {} sessions
                       else sessions)
      in case map_of sessions1 day of
           None \<Rightarrow> sessions1
         | Some concepts \<Rightarrow> AList.update day (insert (toLowerCase (concept l)) concepts) sessions1)"

text \<open>The body of \<open>sessions.forEach\<close>, on the counters \<open>(coOccur, eitherOccur)\<close>.\<close>

definition countSession ::
  "string \<Rightarrow> string \<Rightarrow> nat \<times> nat \<Rightarrow> int \<times> string set \<Rightarrow> nat \<times> nat" where
  "countSession a b counts session =
     (let coOccur = fst counts; eitherOccur = snd counts; concepts = snd session;
          hasA = a \<in> concepts; hasB = b \<in> concepts
      in if hasA \<or> hasB
         then (if hasA \<and> hasB then coOccur + 1 else coOccur, eitherOccur + 1)
         else (coOccur, eitherOccur))"

definition coOccurrenceRate :: "string \<Rightarrow> string \<Rightarrow> SessionLog list \<Rightarrow> real" where
  "coOccurrenceRate conceptA conceptB logs =
     (let sessions = foldl addToSessions [] logs;
          a = toLowerCase conceptA;
          b = toLowerCase conceptB;
          (coOccur, eitherOccur) = foldl (countSession a b) (0, 0) sessions
      in if eitherOccur > 0 then real coOccur / real eitherOccur else 0)"

definition confusionCorrelation :: "string \<Rightarrow> string \<Rightarrow> SessionLog list \<Rightarrow> real" where
  "confusionCorrelation conceptA conceptB logs =
     (let wrongA = filter (\<lambda>l. toLowerCase (concept l) = toLowerCase conceptA \<and> \<not> isCorrect l)
                          logs
      in if length wrongA = 0 then 0
         else
           let wrongASessions = set (map dayOf wrongA);
               wrongBInSameSession =
                 filter (\<lambda>l. toLowerCase (concept l) = toLowerCase conceptB \<and> \<not> isCorrect l \<and>
                              dayOf l \<in> wrongASessions)
                        logs
           in real (length wrongBInSameSession) / real (length wrongA))"

definition calculateEdgeWeight :: "string \<Rightarrow> string \<Rightarrow> SessionLog list \<Rightarrow> real option" where
  "calculateEdgeWeight conceptA conceptB logs =
     (case prerequisiteStrength conceptA conceptB of
        None \<Rightarrow> None
      | Some prereq \<Rightarrow>
          let coOccur = coOccurrenceRate conceptA conceptB logs;
              confusion = confusionCorrelation conceptA conceptB logs
          in Some (ALPHA * prereq + BETA * coOccur + GAMMA * confusion))"

subsection \<open>Louvain community detection\<close>

record WeightedEdge =
  source :: string
  target :: string
  weight :: real

text \<open>
  A community is a number; \<open>communities.get(x)\<close> is \<open>undefined\<close> for an \<open>x\<close> that is no
  node (an edge may name one), and the loop can store that \<open>undefined\<close> as a community. So a
  community is a \<open>nat option\<close> here, \<open>None\<close> for \<open>undefined\<close>.
\<close>

type_synonym community = "nat option"

definition communityOf :: "(string \<times> community) list \<Rightarrow> string \<Rightarrow> community" where
  "communityOf communities n = (case map_of communities n of None \<Rightarrow> None | Some c \<Rightarrow> c)"

definition initialCommunities :: "string list \<Rightarrow> (string \<times> community) list" where
  "initialCommunities nodes =
     foldl (\<lambda>communities (n, i). AList.update n (Some i) communities) []
           (zip nodes [0 ..< length nodes])"

text \<open>\<open>adj.get(x)?.set(y, (adj.get(x)?.get(y) ?? 0) + w)\<close>\<close>

definition addNeighbour ::
  "(string \<times> (string \<times> real) list) list \<Rightarrow> string \<Rightarrow> string \<Rightarrow> real \<Rightarrow>
   (string \<times> (string \<times> real) list) list" where
  "addNeighbour adj x y w =
     (case map_of adj x of
        None \<Rightarrow> adj
      | Some row \<Rightarrow> AList.update x (AList.update y (getOr0 row y + w) row) adj)"

definition adjacency ::
  "string list \<Rightarrow> WeightedEdge list \<Rightarrow> (string \<times> (string \<times> real) list) list" where
  "adjacency nodes edges =
     foldl (\<lambda>adj e. addNeighbour (addNeighbour adj (source e) (target e) (weight e))
                                  (target e) (source e) (weight e))
           (foldl (\<lambda>adj n. AList.update n [] adj) [] nodes)
           edges"

definition degrees ::
  "string list \<Rightarrow> (string \<times> (string \<times> real) list) list \<Rightarrow> (string \<times> real) list" where
  "degrees nodes adj =
     foldl (\<lambda>degree n.
              let d = foldl (+) 0 (map snd (case map_of adj n of None \<Rightarrow> [] | Some row \<Rightarrow> row))
              in AList.update n d degree)
           [] nodes"

definition weightToCommunities ::
  "(string \<times> (string \<times> real) list) list \<Rightarrow> (string \<times> community) list \<Rightarrow> string \<Rightarrow>
   (community \<times> real) list" where
  "weightToCommunities adj communities node =
     (case map_of adj node of
        None \<Rightarrow> []
      | Some row \<Rightarrow>
          foldl (\<lambda>weightToCom (neighbor, w).
                   let nCom = communityOf communities neighbor
                   in AList.update nCom (getOr0 weightToCom nCom + w) weightToCom)
                [] row)"

definition degreeSums ::
  "string list \<Rightarrow> (string \<times> real) list \<Rightarrow> (string \<times> community) list \<Rightarrow>
   (community \<times> real) list" where
  "degreeSums nodes degree communities =
     foldl (\<lambda>degSumInCom n.
              let c = communityOf communities n
              in AList.update c (getOr0 degSumInCom c + getOr0 degree n) degSumInCom)
           [] nodes"

text \<open>
  The search for the best community, over the entries of \<open>weightToCom\<close> in insertion order.
  Both divisions of the gain are written with \<open>jsDiv\<close>.
\<close>

fun bestCommunity ::
  "real \<Rightarrow> real \<Rightarrow> real \<Rightarrow> community \<Rightarrow> (community \<times> real) list \<Rightarrow>
   (community \<times> real) list \<Rightarrow> real \<times> community \<Rightarrow> (real \<times> community) option" where
  "bestCommunity totalWeight m2 kI currentCom degSumInCom [] best = Some best"
| "bestCommunity totalWeight m2 kI currentCom degSumInCom ((com, kIinC) # rest)
       (bestGain, bestCom) =
     (let sigma = getOr0 degSumInCom com - (if com = currentCom then kI else 0)
      in case jsDiv kIinC totalWeight of
           None \<Rightarrow> None
         | Some x \<Rightarrow>
             (case jsDiv (sigma * kI) (m2 * m2) of
                None \<Rightarrow> None
              | Some y \<Rightarrow>
                  let gain = x - y
                  in bestCommunity totalWeight m2 kI currentCom degSumInCom rest
                       (if gain > bestGain then (gain, com) else (bestGain, bestCom))))"

text \<open>The body of \<open>for (const node of nodes)\<close>, on the state \<open>(communities, improved)\<close>.\<close>

definition moveNode ::
  "string list \<Rightarrow> (string \<times> (string \<times> real) list) list \<Rightarrow> (string \<times> real) list \<Rightarrow>
   real \<Rightarrow> real \<Rightarrow> (string \<times> community) list \<times> bool \<Rightarrow> string \<Rightarrow>
   ((string \<times> community) list \<times> bool) option" where
  "moveNode nodes adj degree totalWeight m2 st node =
     (let communities = fst st;
          improved = snd st;
          currentCom = communityOf communities node;
          kI = getOr0 degree node;
          weightToCom = weightToCommunities adj communities node;
          degSumInCom = degreeSums nodes degree communities
      in case bestCommunity totalWeight m2 kI currentCom degSumInCom weightToCom
                (0, currentCom) of
           None \<Rightarrow> None
         | Some (bestGain, bestCom) \<Rightarrow>
             if bestCom \<noteq> currentCom
             then Some (AList.update node bestCom communities, True)
             else Some (communities, improved))"

fun sweep ::
  "string list \<Rightarrow> (string \<times> (string \<times> real) list) list \<Rightarrow> (string \<times> real) list \<Rightarrow>
   real \<Rightarrow> real \<Rightarrow> (string \<times> community) list \<times> bool \<Rightarrow> string list \<Rightarrow>
   ((string \<times> community) list \<times> bool) option" where
  "sweep nodes adj degree totalWeight m2 st [] = Some st"
| "sweep nodes adj degree totalWeight m2 st (node # rest) =
     (case moveNode nodes adj degree totalWeight m2 st node of
        None \<Rightarrow> None
      | Some st' \<Rightarrow> sweep nodes adj degree totalWeight m2 st' rest)"

text \<open>
  \<open>while (improved && maxIterations-- > 0)\<close>. The last argument counts the passes of the
  loop body that have run; the source has no such counter, the result carries it so that the
  number of passes can be stated.
\<close>

function greedyPhase ::
  "string list \<Rightarrow> (string \<times> (string \<times> real) list) list \<Rightarrow> (string \<times> real) list \<Rightarrow>
   real \<Rightarrow> real \<Rightarrow> bool \<Rightarrow> int \<Rightarrow> (string \<times> community) list \<Rightarrow> nat \<Rightarrow>
   ((string \<times> community) list \<times> nat) option" where
  "greedyPhase nodes adj degree totalWeight m2 improved maxIterations communities passes =
     (if improved \<and> maxIterations > 0
      then case sweep nodes adj degree totalWeight m2 (communities, False) nodes of
             None \<Rightarrow> None
           | Some (communities', improved') \<Rightarrow>
               greedyPhase nodes adj degree totalWeight m2 improved' (maxIterations - 1)
                 communities' (passes + 1)
      else Some (communities, passes))"
  by pat_completeness auto
termination
  by (relation "measure (\<lambda>(nodes, adj, degree, totalWeight, m2, improved, maxIterations,
                            communities, passes). nat maxIterations)") auto

text \<open>
  The renumbering pass \<open>communities.forEach((c, n) => ...)\<close>, on the state
  \<open>(communities, idMap, nextId)\<close>; the entries are visited in insertion order and only the
  value of the visited entry changes.
\<close>

definition renumberEntry ::
  "(string \<times> community) list \<times> (community \<times> nat) list \<times> nat \<Rightarrow> string \<times> community \<Rightarrow>
   (string \<times> community) list \<times> (community \<times> nat) list \<times> nat" where
  "renumberEntry st entry =
     (let communities = fst st; idMap = fst (snd st); nextId = snd (snd st);
          n = fst entry; c = snd entry;
          (idMap', nextId') =
            (if map_of idMap c = None then (AList.update c nextId idMap, nextId + 1)
             else (idMap, nextId))
      in (AList.update n (map_of idMap' c) communities, idMap', nextId'))"

definition renumber :: "(string \<times> community) list \<Rightarrow> (string \<times> community) list" where
  "renumber communities = fst (foldl renumberEntry (communities, [], 0) communities)"

text \<open>\<open>louvainRun\<close> is the function with the number of passes of the greedy loop beside its
  result; \<open>louvainCluster\<close> is the function.\<close>

definition louvainRun ::
  "string list \<Rightarrow> WeightedEdge list \<Rightarrow> ((string \<times> community) list \<times> nat) option" where
  "louvainRun nodes edges =
     (let communities = initialCommunities nodes;
          totalWeight = foldl (\<lambda>s e. s + weight e) 0 edges
      in if totalWeight = 0 then Some (communities, 0)
         else
           let adj = adjacency nodes edges;
               degree = degrees nodes adj;
               m2 = 2 * totalWeight
           in case greedyPhase nodes adj degree totalWeight m2 True 20 communities 0 of
                None \<Rightarrow> None
              | Some (communities', passes) \<Rightarrow> Some (renumber communities', passes))"

definition louvainCluster ::
  "string list \<Rightarrow> WeightedEdge list \<Rightarrow> (string \<times> community) list option" where
  "louvainCluster nodes edges = map_option fst (louvainRun nodes edges)"

subsection \<open>Node state and graph builder\<close>

datatype EdgeType = Prerequisite | Similar | Application

record GraphEdge = WeightedEdge +
  edge_prerequisiteStrength :: real
  edge_coOccurrenceRate :: real
  edge_confusionCorrelation :: real
  edge_type :: EdgeType

record NodeState =
  state_color :: string
  state_size :: real
  state_label :: string

record GraphNode =
  node_id :: string
  node_name :: string
  node_category :: string
  node_masteryPL :: real
  node_effectiveMastery :: real
  node_community :: nat
  node_degree :: real
  node_color :: string
  node_size :: real

record Graph =
  graph_nodes :: "GraphNode list"
  graph_edges :: "GraphEdge list"

definition getNodeState :: "real \<Rightarrow> real \<Rightarrow> real \<Rightarrow> NodeState" where
  "getNodeState mastery cognitiveLoad forgettingRisk =
     (let effective = mastery * (1 - forgettingRisk * 0.4);
          (color, label) =
            (if effective \<ge> 0.9 then (''#00ff88'', ''Mastered'')
             else if effective \<ge> 0.7 then (''#ffff00'', ''Proficient'')
             else if cognitiveLoad > 0.8 then (''#ff4400'', ''Overloaded'')
             else if forgettingRisk > 0.5 then (''#ff8800'', ''Fading'')
             else if effective \<ge> 0.5 then (''#44aaff'', ''Learning'')
             else (''#cc44ff'', ''Developing''));
          sz = 3 + mastery * 8 + cognitiveLoad * 2
      in \<lparr> state_color = color, state_size = sz, state_label = label \<rparr>)"

definition addToConceptMap ::
  "(string \<times> SessionLog list) list \<Rightarrow> SessionLog \<Rightarrow> (string \<times> SessionLog list) list" where
  "addToConceptMap conceptMap l =
     (let key = toLowerCase (concept l);
          conceptMap1 = (if map_of conceptMap key = None then AList.update key [] conceptMap
                         else conceptMap)
      in case map_of conceptMap1 key of
           None \<Rightarrow> conceptMap1
         | Some ls \<Rightarrow> AList.update key (ls @ [l]) conceptMap1)"

text \<open>The pairs \<open>(conceptIds[i], conceptIds[j])\<close> with \<open>i < j\<close>, in the order of the two
  nested loops.\<close>

definition conceptPairs :: "string list \<Rightarrow> (string \<times> string) list" where
  "conceptPairs conceptIds =
     concat (map (\<lambda>i. map (\<lambda>j. (conceptIds ! i, conceptIds ! j))
                           [i + 1 ..< length conceptIds])
                 [0 ..< length conceptIds])"

text \<open>The body of the inner loop, on the state \<open>(edges, edgeSet)\<close>; each \<open>continue\<close> leaves
  the state as it is.\<close>

definition addEdge ::
  "SessionLog list \<Rightarrow> GraphEdge list \<times> string set \<Rightarrow> string \<times> string \<Rightarrow>
   (GraphEdge list \<times> string set) option" where
  "addEdge logs st pair =
     (let edges = fst st; edgeSet = snd st; a = fst pair; b = snd pair
      in case calculateEdgeWeight a b logs of
           None \<Rightarrow> None
         | Some w \<Rightarrow>
             if w < 0.05 then Some st
             else
               let key = a @ ''|'' @ b
               in if key \<in> edgeSet then Some st
                  else
                    case prerequisiteStrength a b of
                      None \<Rightarrow> None
                    | Some prereq \<Rightarrow>
                        let ty = (if prereq > 0.7 then Prerequisite
                                  else if prereq > 0.3 then Application else Similar)
                        in Some (edges @
                                   [\<lparr> source = a, target = b, weight = w,
                                      edge_prerequisiteStrength = prereq,
                                      edge_coOccurrenceRate = coOccurrenceRate a b logs,
                                      edge_confusionCorrelation = confusionCorrelation a b logs,
                                      edge_type = ty \<rparr>],
                                 insert key edgeSet))"

fun addEdges ::
  "SessionLog list \<Rightarrow> GraphEdge list \<times> string set \<Rightarrow> (string \<times> string) list \<Rightarrow>
   (GraphEdge list \<times> string set) option" where
  "addEdges logs st [] = Some st"
| "addEdges logs st (pair # rest) =
     (case addEdge logs st pair of None \<Rightarrow> None | Some st' \<Rightarrow> addEdges logs st' rest)"

definition degreeCounts :: "GraphEdge list \<Rightarrow> (string \<times> real) list" where
  "degreeCounts edges =
     foldl (\<lambda>degreeMap e.
              let degreeMap1 = AList.update (source e) (getOr0 degreeMap (source e) + 1) degreeMap
              in AList.update (target e) (getOr0 degreeMap1 (target e) + 1) degreeMap1)
           [] edges"

text \<open>
  One node, from an entry \<open>(id, conceptLogs)\<close> of \<open>conceptMap\<close>. The list \<open>conceptLogs\<close> of
  an entry is never empty (\<open>conceptMap_entries_nonempty\<close> below), so \<open>last\<close> and the two
  divisions by its length are as in the source. \<open>now\<close> is the reading of \<open>Date.now()\<close>.
\<close>

definition buildNode ::
  "real \<Rightarrow> (string \<times> community) list \<Rightarrow> (string \<times> real) list \<Rightarrow>
   string \<times> SessionLog list \<Rightarrow> GraphNode" where
  "buildNode now communities degreeMap entry =
     (let ident = fst entry;
          conceptLogs = snd entry;
          latestLog = last conceptLogs;
          avg = foldl (\<lambda>s l. s + masteryPL l) 0 conceptLogs / real (length conceptLogs);
          daysSince = (now - timestamp latestLog) / 86400000;
          forgetting = 1 - exp (- daysSince / max 1 (real (length conceptLogs)));
          cogLoad = min 1 (foldl (\<lambda>s l. s + responseTimeMs l) 0 conceptLogs /
                             (real (length conceptLogs) * 60000));
          state = getNodeState avg cogLoad forgetting
      in \<lparr> node_id = ident,
           node_name = (case ident of [] \<Rightarrow> [] | ch # rest \<Rightarrow> toUpperChar ch # rest),
           node_category = category latestLog,
           node_masteryPL = avg,
           node_effectiveMastery = avg * (1 - forgetting * 0.4),
           node_community = (case communityOf communities ident of None \<Rightarrow> 0 | Some k \<Rightarrow> k),
           node_degree = getOr0 degreeMap ident,
           node_color = state_color state,
           node_size = state_size state \<rparr>)"

text \<open>
  \<open>buildGraph\<close> reads the clock once per node; the reading is the model's first argument.
  The nodes are built from the entries of \<open>conceptMap\<close> in key order, which is what
  \<open>conceptIds.map(id => ... conceptMap.get(id) ...)\<close> visits. The result is \<open>None\<close> where
  an edge weight has no model (an inherited key among the concept names).
\<close>

definition buildConceptMap :: "SessionLog list \<Rightarrow> (string \<times> SessionLog list) list" where
  "buildConceptMap logs = foldl addToConceptMap [] logs"

definition buildEdges :: "SessionLog list \<Rightarrow> string list \<Rightarrow> GraphEdge list option" where
  "buildEdges logs conceptIds =
     map_option fst (addEdges logs ([], {}) (conceptPairs conceptIds))"

definition buildGraph :: "real \<Rightarrow> SessionLog list \<Rightarrow> Graph option" where
  "buildGraph now logs =
     (let conceptMap = buildConceptMap logs;
          conceptIds = map fst conceptMap
      in case buildEdges logs conceptIds of
           None \<Rightarrow> None
         | Some edges \<Rightarrow>
             (case louvainCluster conceptIds
                     (map (\<lambda>e. \<lparr> source = source e, target = target e, weight = weight e \<rparr>)
                          edges) of
                None \<Rightarrow> None
              | Some communities \<Rightarrow>
                  let degreeMap = degreeCounts edges
                  in Some \<lparr> graph_nodes = map (buildNode now communities degreeMap) conceptMap,
                             graph_edges = edges \<rparr>))"

section \<open>Properties of the mastery engine\<close>

text \<open>
  C10. An incorrect answer leaves the whole mastery state as it was: \<open>updateStability\<close> with
  \<open>correct = false\<close> returns its argument, so \<open>pL\<close>, \<open>stability\<close>, \<open>reviewCount\<close> and
  \<open>lastReviewMs\<close> are all unchanged, whatever the clock reads.
\<close>

theorem updateStability_incorrect_unchanged:
  "updateStability now s False = s"
  by (simp add: updateStability_def)


lemma updateMastery_correct_clamped:
  assumes "0 < p" "p < 1"
  shows "\<exists>x. p < x \<and> updateMastery p True = min 0.9999 (max 0.0001 x)"
proof -
  define pc where "pc = p * (1 - P_SLIP) + (1 - p) * P_GUESS"
  define q where "q = p * (1 - P_SLIP) / pc"
  have pc: "0 < pc" "pc < 1 - P_SLIP"
    using assms unfolding pc_def P_SLIP_def P_GUESS_def by argo+
  have "p * pc < p * (1 - P_SLIP)"
    using pc(2) assms(1) by (rule mult_strict_left_mono)
  then have pq: "p < q"
    using pc(1) by (simp add: q_def pos_less_divide_eq)
  have "p * (1 - P_SLIP) \<le> pc"
    using assms unfolding pc_def P_SLIP_def P_GUESS_def by argo
  then have q1: "q \<le> 1"
    using pc(1) by (simp add: q_def pos_divide_le_eq)
  have "0 \<le> (1 - q) * P_LEARN"
    using q1 by (simp add: P_LEARN_def)
  then have gt: "p < q + (1 - q) * P_LEARN"
    using pq by linarith
  have "updateMastery p True = min 0.9999 (max 0.0001 (q + (1 - q) * P_LEARN))"
    using pc(1) by (simp add: updateMastery_def Let_def orElse_def pc_def q_def)
  with gt show ?thesis by blast
qed

text \<open>
  C2, as stated, fails just below 1: the result is clamped to at most \<open>0.9999\<close>, so for
  \<open>p = 0.99995\<close>, inside \<open>(0,1)\<close>, \<open>updateMastery(p, true) = 0.9999 < p\<close>.
\<close>

theorem updateMastery_correct_not_above_near_one:
  "(0::real) < 0.99995 \<and> (0.99995::real) < 1 \<and> \<not> (0.99995 < updateMastery 0.99995 True)"
  by (simp add: updateMastery_def orElse_def P_LEARN_def P_GUESS_def P_SLIP_def Let_def)

text \<open>
  C2, amended. For every \<open>p\<close> with \<open>0 < p < 0.9999\<close> (the clamp's ceiling),
  \<open>updateMastery(p, true) > p\<close>; for \<open>0.9999 \<le> p < 1\<close> the result is the ceiling
  \<open>0.9999\<close>.
\<close>

theorem updateMastery_correct_increases_below_ceiling:
  "(0 < p \<and> p < 0.9999 \<longrightarrow> p < updateMastery p True) \<and>
   (0.9999 \<le> p \<and> p < 1 \<longrightarrow> updateMastery p True = 0.9999)"
proof (intro conjI impI)
  assume h: "0 < p \<and> p < 0.9999"
  then have "0 < p" "p < 1" by simp_all
  from updateMastery_correct_clamped [OF this] obtain x
    where "p < x" "updateMastery p True = min 0.9999 (max 0.0001 x)" by blast
  with h show "p < updateMastery p True" by (simp add: min_def max_def)
next
  assume h: "0.9999 \<le> p \<and> p < 1"
  then have "0 < p" "p < 1" by simp_all
  from updateMastery_correct_clamped [OF this] obtain x
    where "p < x" "updateMastery p True = min 0.9999 (max 0.0001 x)" by blast
  with h show "updateMastery p True = 0.9999" by (simp add: min_def max_def)
qed

theorem updateMastery_correct_increases_below_ceiling_witness:
  "((0::real) < 0.5 \<and> (0.5::real) < 0.9999 \<and> 0.5 < updateMastery 0.5 True) \<and>
   ((0.9999::real) \<le> 0.99995 \<and> (0.99995::real) < 1 \<and> updateMastery 0.99995 True = 0.9999)"
  using updateMastery_correct_increases_below_ceiling [of "0.5"]
    updateMastery_correct_increases_below_ceiling [of "0.99995"]
  by simp

text \<open>
  C7. From \<open>p0 = 0.3\<close>, three updates by \<open>bktUpdate\<close> (slip 0.1, guess 0.2, pLearn 0.3) on a
  correct answer give \<open>p1 = 156/205\<close>, \<open>p2 = 7167/7510\<close>, \<open>p3 = 323544/325945\<close>, with
  \<open>p0 < p1 < p2 < p3\<close> and \<open>p3 > 0.7\<close>. No division by zero happens on the way.
\<close>

theorem bktUpdate_three_correct_from_initial:
  "bktUpdate 0.3 True = Some (156 / 205) \<and>
   bktUpdate (156 / 205) True = Some (7167 / 7510) \<and>
   bktUpdate (7167 / 7510) True = Some (323544 / 325945) \<and>
   (0.3::real) < 156 / 205 \<and> (156 / 205 :: real) < 7167 / 7510 \<and>
   (7167 / 7510 :: real) < 323544 / 325945 \<and> (0.7::real) < 323544 / 325945"
  by (simp add: bktUpdate_def jsDiv_def BKT_P_LEARN_def BKT_P_GUESS_def BKT_P_SLIP_def Let_def)

section \<open>Properties of the behavioural analyser\<close>

text \<open>
  C9. With \<open>totalQuestions = 0\<close>, \<open>detectCheating\<close> returns score 0, not flagged, and a zero
  breakdown; the result is a value (\<open>Some\<close>): no division by zero happens.
\<close>

theorem detectCheating_no_questions:
  "totalQuestions s = 0 \<Longrightarrow>
   detectCheating s =
     Some \<lparr> score = 0, flagged = False, breakdown = \<lparr> tab = 0, paste = 0, fastHard = 0 \<rparr> \<rparr>"
  by (simp add: detectCheating_def)

theorem detectCheating_no_questions_witness:
  "totalQuestions \<lparr> tabSwitches = 0, pasteEvents = 0, fastHardAnswers = 0,
                    totalQuestions = 0 \<rparr> = 0 \<and>
   detectCheating \<lparr> tabSwitches = 0, pasteEvents = 0, fastHardAnswers = 0,
                    totalQuestions = 0 \<rparr> =
     Some \<lparr> score = 0, flagged = False, breakdown = \<lparr> tab = 0, paste = 0, fastHard = 0 \<rparr> \<rparr>"
  using detectCheating_no_questions
    [of "\<lparr> tabSwitches = 0, pasteEvents = 0, fastHardAnswers = 0, totalQuestions = 0 \<rparr>"]
  by simp

text \<open>
  C6. In exam mode, or with current mastery above 0.9, or with a remaining time that is given
  and below 60000 ms, \<open>shouldTriggerSocratic\<close> returns \<open>shouldTrigger = false\<close>, whatever the
  other signals are.
\<close>

theorem shouldTriggerSocratic_hard_exits:
  "mode = Exam \<or> currentPL > 0.9 \<or> (\<exists>t. timeRemainingMs = Some t \<and> t < 60000) \<Longrightarrow>
   shouldTrigger (shouldTriggerSocratic mode correct currentPL prevPL wrongStreakOnConcept
                    guessProbability confidenceScore timeRemainingMs) = False"
  by (auto simp add: shouldTriggerSocratic_def)

text \<open>
  The witness takes signals that trigger at high priority in practice mode (guess probability
  0.9, a wrong streak of 3, a mastery drop of 0.3) and applies each hard exit to them in turn.
\<close>

theorem shouldTriggerSocratic_hard_exits_witness:
  "shouldTrigger (shouldTriggerSocratic Practice False 0.5 0.8 3 0.9 0.1 None) = True \<and>
   shouldTrigger (shouldTriggerSocratic Exam False 0.5 0.8 3 0.9 0.1 None) = False \<and>
   shouldTrigger (shouldTriggerSocratic Practice False 0.95 0.8 3 0.9 0.1 None) = False \<and>
   shouldTrigger (shouldTriggerSocratic Practice False 0.5 0.8 3 0.9 0.1 (Some 30000)) = False"
  using
    shouldTriggerSocratic_hard_exits
      [where mode = Exam and currentPL = "0.5" and timeRemainingMs = None and correct = False
         and prevPL = "0.8" and wrongStreakOnConcept = 3 and guessProbability = "0.9"
         and confidenceScore = "0.1"]
    shouldTriggerSocratic_hard_exits
      [where mode = Practice and currentPL = "0.95" and timeRemainingMs = None
         and correct = False and prevPL = "0.8" and wrongStreakOnConcept = 3
         and guessProbability = "0.9" and confidenceScore = "0.1"]
    shouldTriggerSocratic_hard_exits
      [where mode = Practice and currentPL = "0.5" and timeRemainingMs = "Some 30000"
         and correct = False and prevPL = "0.8" and wrongStreakOnConcept = 3
         and guessProbability = "0.9" and confidenceScore = "0.1"]
  by (simp add: shouldTriggerSocratic_def)

section \<open>Properties of the ability estimator\<close>

lemma overflowBound_large: "10 ^ 300 < overflowBound"
  by (simp add: overflowBound_def)

lemma underflowBound_small: "0 < underflowBound" "underflowBound < 1"
  by (simp_all add: underflowBound_def)

lemma ofReal_in_range:
  "\<bar>r\<bar> < overflowBound \<Longrightarrow>
   \<exists>y. ofReal r = Num y \<and> \<bar>y\<bar> \<le> \<bar>r\<bar> \<and> (0 \<le> r \<longrightarrow> 0 \<le> y) \<and> (r \<le> 0 \<longrightarrow> y \<le> 0)"
  by (auto simp add: ofReal_def)

lemma ofReal_small:
  "\<bar>r\<bar> \<le> 1000 \<Longrightarrow>
   \<exists>y. ofReal r = Num y \<and> \<bar>y\<bar> \<le> \<bar>r\<bar> \<and> (0 \<le> r \<longrightarrow> 0 \<le> y) \<and> (r \<le> 0 \<longrightarrow> y \<le> 0)"
proof -
  assume "\<bar>r\<bar> \<le> 1000"
  moreover have "(1000::real) < 10 ^ 300" by simp
  ultimately have "\<bar>r\<bar> < overflowBound" using overflowBound_large by linarith
  then show ?thesis by (rule ofReal_in_range)
qed

lemma ofReal_nonpos: "r \<le> 0 \<Longrightarrow> ofReal r = NegInf \<or> (\<exists>y. ofReal r = Num y \<and> y \<le> 0)"
  using overflowBound_large by (auto simp add: ofReal_def)

lemma ofReal_zero: "ofReal 0 = Num 0"
  using overflowBound_large underflowBound_small by (simp add: ofReal_def)

lemma ofReal_one: "ofReal 1 = Num 1"
proof -
  have "(1::real) < 10 ^ 300" by simp
  then have "(1::real) < overflowBound" using overflowBound_large by linarith
  then show ?thesis using underflowBound_small by (simp add: ofReal_def)
qed

lemma thetas_finite: "t \<in> set thetas \<Longrightarrow> \<exists>x. t = Num x \<and> \<bar>x\<bar> \<le> 12"
proof -
  assume "t \<in> set thetas"
  then obtain i where i: "i < 41"
    and t: "t = numAdd (Num (- 4)) (numDiv (numMul (Num 8) (Num (real i))) (Num 40))"
    by (auto simp add: thetas_def GRID_SIZE_def)
  have "\<bar>8 * real i\<bar> \<le> 1000" using i by simp
  from ofReal_small [OF this] obtain y1 where
    y1: "ofReal (8 * real i) = Num y1" "\<bar>y1\<bar> \<le> 320" using i by auto
  have "\<bar>y1 / 40\<bar> \<le> 1000" using y1(2) by simp
  from ofReal_small [OF this] obtain y2 where
    y2: "ofReal (y1 / 40) = Num y2" "\<bar>y2\<bar> \<le> 8" using y1(2) by auto
  have "\<bar>- 4 + y2\<bar> \<le> 1000" using y2(2) by simp
  from ofReal_small [OF this] obtain y3 where
    y3: "ofReal (- 4 + y2) = Num y3" "\<bar>y3\<bar> \<le> 12" using y2(2) by auto
  from t y1 y2 y3 show ?thesis by simp
qed

lemma length_thetas: "length thetas = 41"
  by (simp add: thetas_def GRID_SIZE_def)

lemma exp_nonpos_finite:
  fixes z :: real
  assumes "z \<le> 0"
  shows "\<exists>y. ofReal (exp z) = Num y \<and> 0 \<le> y \<and> y \<le> 1"
proof -
  have e: "0 \<le> exp z" "exp z \<le> 1" using assms by simp_all
  then have "\<bar>exp z\<bar> \<le> 1000" by linarith
  from ofReal_small [OF this] obtain y where
    y: "ofReal (exp z) = Num y" "\<bar>y\<bar> \<le> \<bar>exp z\<bar>" "0 \<le> exp z \<longrightarrow> 0 \<le> y" by blast
  from y(2,3) e have "0 \<le> y" "y \<le> 1" by linarith+
  with y(1) show ?thesis by blast
qed

text \<open>Every prior weight is a finite number between 0 and 1.\<close>

lemma prior_bounded: "q \<in> set prior \<Longrightarrow> \<exists>y. q = Num y \<and> 0 \<le> y \<and> y \<le> 1"
proof -
  assume "q \<in> set prior"
  then obtain t where t: "t \<in> set thetas"
    and q: "q = numDiv (numExp (numMul (numMul (Num (- 0.5)) t) t)) (Num (sqrt (2 * pi)))"
    by (auto simp add: prior_def)
  from thetas_finite [OF t] obtain x where x: "t = Num x" "\<bar>x\<bar> \<le> 12" by blast
  have "\<bar>- 0.5 * x\<bar> \<le> 1000" using x(2) by simp
  from ofReal_small [OF this] obtain w where
    w: "ofReal (- 0.5 * x) = Num w" "0 \<le> - 0.5 * x \<longrightarrow> 0 \<le> w" "- 0.5 * x \<le> 0 \<longrightarrow> w \<le> 0"
    by blast
  have wx: "w * x \<le> 0"
    using w(2,3) by (cases "0 \<le> x") (auto simp add: mult_nonpos_nonneg mult_nonneg_nonpos)
  have "\<exists>y. numExp (ofReal (w * x)) = Num y \<and> 0 \<le> y \<and> y \<le> 1"
    using ofReal_nonpos [OF wx] exp_nonpos_finite by auto
  then obtain y where y: "numExp (ofReal (w * x)) = Num y" "0 \<le> y" "y \<le> 1"
    by blast
  have "1 \<le> 2 * pi" using pi_ge_two by linarith
  then have s: "1 \<le> sqrt (2 * pi)" by simp
  then have "y \<le> sqrt (2 * pi)" using y(3) by linarith
  then have r: "0 \<le> y / sqrt (2 * pi)" "y / sqrt (2 * pi) \<le> 1"
    using y(2) s by (simp_all add: divide_le_eq)
  then have "\<bar>y / sqrt (2 * pi)\<bar> \<le> 1000" by linarith
  from ofReal_small [OF this] obtain y' where
    y': "ofReal (y / sqrt (2 * pi)) = Num y'" "\<bar>y'\<bar> \<le> \<bar>y / sqrt (2 * pi)\<bar>"
        "0 \<le> y / sqrt (2 * pi) \<longrightarrow> 0 \<le> y'" by blast
  from y'(2,3) r have "0 \<le> y'" "y' \<le> 1" by linarith+
  with q x w y s y'(1) show ?thesis by simp
qed

lemma ofReal_exact: "1 \<le> \<bar>r\<bar> \<Longrightarrow> \<bar>r\<bar> \<le> 10 ^ 300 \<Longrightarrow> ofReal r = Num r"
  using underflowBound_small overflowBound_large by (auto simp add: ofReal_def)

text \<open>
  Sixty wrong answers on coin-flip items (\<open>a = 0\<close>, \<open>c = 0\<close>, so probability 1/2 at every
  grid point): the likelihood is \<open>2^-60\<close> on the whole grid, and the posterior mass is at
  most \<open>41 * 2^-60\<close>, which is below \<open>1e-15\<close>.
\<close>

lemma underflowBound_tiny: "underflowBound < 1 / 2 ^ 100"
  by (simp add: underflowBound_def)

lemma ofReal_mid: "1 / 2 ^ 100 \<le> \<bar>r\<bar> \<Longrightarrow> \<bar>r\<bar> \<le> 10 ^ 300 \<Longrightarrow> ofReal r = Num r"
  using underflowBound_tiny overflowBound_large by (auto simp add: ofReal_def)

lemma ofReal_half_power: "k \<le> 100 \<Longrightarrow> ofReal ((1 / 2) ^ k) = Num ((1 / 2) ^ k)"
proof -
  assume k: "k \<le> 100"
  have "(1 / 2 :: real) ^ 100 \<le> (1 / 2) ^ k"
    using k by (intro power_decreasing) simp_all
  then have lo: "1 / 2 ^ 100 \<le> \<bar>(1 / 2 :: real) ^ k\<bar>" by (simp add: power_one_over)
  have "(1 / 2 :: real) ^ k \<le> 1" by (simp add: power_le_one)
  moreover have "(1::real) \<le> 10 ^ 300" by simp
  ultimately have hi: "\<bar>(1 / 2 :: real) ^ k\<bar> \<le> 10 ^ 300" by simp
  from ofReal_mid [OF lo hi] show ?thesis .
qed

lemma threeParamLogistic_coin:
  assumes "\<bar>x\<bar> \<le> 12"
  shows "threeParamLogistic (Num x) (Num 0) (Num 0) (Num 0) = Num (1 / 2)"
proof -
  have "\<bar>x + - 0\<bar> \<le> 1000" using assms by simp
  from ofReal_small [OF this] obtain x1 where x1: "ofReal (x + - 0) = Num x1" by blast
  have e: "numExp (numMul (numNeg (Num 0)) (numSub (Num x) (Num 0))) = Num 1"
    using x1 by (simp add: numSub_def ofReal_zero ofReal_one)
  have two: "numAdd (Num 1) (Num 1) = Num 2"
    using ofReal_exact [of 2] by simp
  have one: "numSub (Num 1) (Num 0) = Num 1"
    by (simp add: numSub_def ofReal_one)
  have h: "ofReal (1 / 2) = Num (1 / 2)"
    using ofReal_half_power [of 1] by simp
  have half: "numDiv (Num 1) (Num 2) = Num (1 / 2)"
    using h by simp
  have add: "numAdd (Num 0) (Num (1 / 2)) = Num (1 / 2)"
    using h by simp
  show ?thesis
    unfolding threeParamLogistic_def Let_def e two one half add ..
qed

lemma likelihood_coin_fold:
  assumes "\<bar>x\<bar> \<le> 12"
  shows "k + n \<le> 100 \<Longrightarrow>
     foldl (\<lambda>acc r.
              let p = threeParamLogistic (Num x) (irt_a (item r)) (irt_b (item r))
                        (irt_c (item r))
              in numMul acc (if answered_correct r then p else numSub (Num 1) p))
           (Num ((1 / 2) ^ k))
           (replicate n \<lparr> item = \<lparr> item_id = i, irt_a = Num 0, irt_b = Num 0,
                                   irt_c = Num 0 \<rparr>, answered_correct = False \<rparr>)
     = Num ((1 / 2) ^ (k + n))"
proof (induction n arbitrary: k)
  case 0
  then show ?case by simp
next
  case (Suc n)
  have h: "ofReal (1 / 2) = Num (1 / 2)"
    using ofReal_half_power [of 1] by simp
  have sub: "numSub (Num 1) (Num (1 / 2)) = Num (1 / 2)"
    using h by (simp add: numSub_def)
  have "numMul (Num ((1 / 2) ^ k)) (Num (1 / 2)) = Num ((1 / 2) ^ Suc k)"
    using ofReal_half_power [of "Suc k"] Suc.prems by (simp add: mult.commute)
  with Suc.IH [of "Suc k"] Suc.prems show ?case
    by (simp add: threeParamLogistic_coin [OF assms] sub Let_def)
qed

lemma sum_bounded:
  "(\<forall>u \<in> set us. \<exists>z. u = Num z \<and> 0 \<le> z \<and> z \<le> B) \<Longrightarrow> 0 \<le> a \<Longrightarrow> 0 \<le> B \<Longrightarrow>
   a + real (length us) * B \<le> 1000 \<Longrightarrow>
   \<exists>s. foldl numAdd (Num a) us = Num s \<and> 0 \<le> s \<and> s \<le> a + real (length us) * B"
proof (induction us arbitrary: a)
  case Nil
  then show ?case by simp
next
  case (Cons u us)
  from Cons.prems(1) obtain z where z: "u = Num z" "0 \<le> z" "z \<le> B" by auto
  have le: "a + z + real (length us) * B \<le> a + real (length (u # us)) * B"
    using z(3) by (simp add: algebra_simps)
  have lb: "0 \<le> real (length us) * B" using Cons.prems(3) by simp
  have "\<bar>a + z\<bar> \<le> 1000" using Cons.prems(2,4) z(2) le lb by linarith
  from ofReal_small [OF this] obtain a' where
    a': "ofReal (a + z) = Num a'" "\<bar>a'\<bar> \<le> \<bar>a + z\<bar>" "0 \<le> a + z \<longrightarrow> 0 \<le> a'" by blast
  have a'b: "0 \<le> a'" "a' \<le> a + z" using a'(2,3) Cons.prems(2) z(2) by linarith+
  have "a' + real (length us) * B \<le> 1000" using a'b(2) le Cons.prems(4) by linarith
  with Cons.IH [of a'] Cons.prems(1,3) a'b(1) obtain s where
    s: "foldl numAdd (Num a') us = Num s" "0 \<le> s" "s \<le> a' + real (length us) * B" by auto
  have "s \<le> a + real (length (u # us)) * B" using s(3) a'b(2) le by linarith
  with s(1,2) z(1) a'(1) show ?case by simp
qed

lemma posteriorSum_coin_flips:
  "\<exists>s. posteriorSum (replicate 60 \<lparr> item = \<lparr> item_id = ''q1'', irt_a = Num 0, irt_b = Num 0,
                                              irt_c = Num 0 \<rparr>, answered_correct = False \<rparr>)
         = Num s \<and> s \<le> 41 * (1 / 2) ^ 60"
proof -
  let ?rs = "replicate 60 \<lparr> item = \<lparr> item_id = ''q1'', irt_a = Num 0, irt_b = Num 0,
                                      irt_c = Num 0 \<rparr>, answered_correct = False \<rparr>"
  have lik: "likelihood ?rs = map (\<lambda>t. Num ((1 / 2) ^ 60)) thetas"
  proof -
    have "\<And>t. t \<in> set thetas \<Longrightarrow>
            foldl (\<lambda>acc r.
              let p = threeParamLogistic t (irt_a (item r)) (irt_b (item r)) (irt_c (item r))
              in numMul acc (if answered_correct r then p else numSub (Num 1) p))
              (Num 1) ?rs = Num ((1 / 2) ^ 60)"
    proof -
      fix t assume "t \<in> set thetas"
      from thetas_finite [OF this] obtain x where x: "t = Num x" "\<bar>x\<bar> \<le> 12" by blast
      from likelihood_coin_fold [OF x(2), of 0 60 "''q1''"] x(1)
      show "foldl (\<lambda>acc r.
              let p = threeParamLogistic t (irt_a (item r)) (irt_b (item r)) (irt_c (item r))
              in numMul acc (if answered_correct r then p else numSub (Num 1) p))
              (Num 1) ?rs = Num ((1 / 2) ^ 60)"
        by simp
    qed
    then show ?thesis unfolding likelihood_def by simp
  qed
  have un: "\<forall>u \<in> set (unnormalized ?rs). \<exists>z. u = Num z \<and> 0 \<le> z \<and> z \<le> (1 / 2) ^ 60"
  proof
    fix u assume "u \<in> set (unnormalized ?rs)"
    then obtain q where q: "q \<in> set prior" "u = numMul (Num ((1 / 2) ^ 60)) q"
      unfolding unnormalized_def lik by (auto simp add: zip_map1 dest: set_zip_rightD)
    from prior_bounded [OF q(1)] obtain y where y: "q = Num y" "0 \<le> y" "y \<le> 1" by blast
    have r: "0 \<le> (1 / 2) ^ 60 * y" "(1 / 2) ^ 60 * y \<le> (1 / 2 :: real) ^ 60"
      using y(2,3) by (simp_all add: mult_left_le)
    have "(1 / 2 :: real) ^ 60 \<le> 1" by (simp add: power_le_one)
    with r have "\<bar>(1 / 2) ^ 60 * y\<bar> \<le> 1000" by linarith
    from ofReal_small [OF this] obtain z where
      z: "ofReal ((1 / 2) ^ 60 * y) = Num z" "\<bar>z\<bar> \<le> \<bar>(1 / 2) ^ 60 * y\<bar>"
         "0 \<le> (1 / 2) ^ 60 * y \<longrightarrow> 0 \<le> z" by blast
    from z(2,3) r have "0 \<le> z" "z \<le> (1 / 2) ^ 60" by linarith+
    with q(2) y(1) z(1) show "\<exists>z. u = Num z \<and> 0 \<le> z \<and> z \<le> (1 / 2) ^ 60" by simp
  qed
  have len: "length (unnormalized ?rs) = 41"
    unfolding unnormalized_def lik by (simp add: prior_def length_thetas)
  have "\<exists>s. foldl numAdd (Num 0) (unnormalized ?rs) = Num s \<and> 0 \<le> s \<and>
             s \<le> 0 + real (length (unnormalized ?rs)) * (1 / 2) ^ 60"
    using un by (intro sum_bounded) (simp_all add: len power_one_over)
  then show ?thesis
    unfolding posteriorSum_def len by auto
qed

text \<open>
  Where the likelihood overflows, the guard does not catch it. Two correct answers on items
  with \<open>a = 0\<close> and \<open>c = 1e200\<close>: each probability is \<open>(1e200 + 1) / 2\<close>, their product is
  \<open>Infinity\<close> at every grid point, the sum is \<open>Infinity\<close>, which is not below \<open>1e-15\<close>, each
  posterior weight is \<open>Infinity / Infinity\<close>, and the result is \<open>NaN\<close>.
\<close>

lemma threeParamLogistic_huge_guess:
  assumes "\<bar>x\<bar> \<le> 12" "4 \<le> g" "g \<le> 10 ^ 299"
  shows "threeParamLogistic (Num x) (Num 0) (Num 0) (Num g) = Num ((g + 1) / 2)"
proof -
  have "\<bar>x + - 0\<bar> \<le> 1000" using assms(1) by simp
  from ofReal_small [OF this] obtain x1 where x1: "ofReal (x + - 0) = Num x1" by blast
  have e: "numExp (numMul (numNeg (Num 0)) (numSub (Num x) (Num 0))) = Num 1"
    using x1 by (simp add: numSub_def ofReal_zero ofReal_one)
  have le: "(10::real) ^ 299 \<le> 10 ^ 300" by simp
  have two: "numAdd (Num 1) (Num 1) = Num 2"
    using ofReal_exact [of 2] by simp
  have a: "numSub (Num 1) (Num g) = Num (1 - g)"
    using ofReal_exact [of "1 - g"] assms(2,3) le by (simp add: numSub_def)
  have b: "numDiv (Num (1 - g)) (Num 2) = Num ((1 - g) / 2)"
    using ofReal_exact [of "(1 - g) / 2"] assms(2,3) le by simp
  have eq: "g + (1 - g) / 2 = (g + 1) / 2" by (simp add: field_simps)
  have ex: "ofReal ((g + 1) / 2) = Num ((g + 1) / 2)"
    using ofReal_exact [of "(g + 1) / 2"] assms(2,3) le by simp
  have c: "numAdd (Num g) (Num ((1 - g) / 2)) = Num ((g + 1) / 2)"
    unfolding numAdd.simps eq ex ..
  show ?thesis
    unfolding threeParamLogistic_def Let_def e two a b c ..
qed

lemma likelihood_huge_guess:
  assumes "10 ^ 200 \<le> g" "g \<le> 10 ^ 299"
  shows "likelihood
           [\<lparr> item = \<lparr> item_id = i1, irt_a = Num 0, irt_b = Num 0, irt_c = Num g \<rparr>,
              answered_correct = True \<rparr>,
            \<lparr> item = \<lparr> item_id = i2, irt_a = Num 0, irt_b = Num 0, irt_c = Num g \<rparr>,
              answered_correct = True \<rparr>] = map (\<lambda>t. PosInf) thetas"
proof -
  have g4: "4 \<le> g"
  proof -
    have "(4::real) \<le> 10 ^ 200" by simp
    with assms(1) show ?thesis by linarith
  qed
  have le: "(10::real) ^ 299 \<le> 10 ^ 300" by simp
  have half: "10 ^ 200 / 2 \<le> (g + 1) / 2" using assms(1) by simp
  have "overflowBound \<le> (10 ^ 200 / 2) * (10 ^ 200 / 2)"
    by (simp add: overflowBound_def)
  also have "\<dots> \<le> ((g + 1) / 2) * ((g + 1) / 2)"
    using half by (intro mult_mono) simp_all
  finally have up: "overflowBound \<le> ((g + 1) / 2) * ((g + 1) / 2)" .
  have p1: "numMul (Num 1) (Num ((g + 1) / 2)) = Num ((g + 1) / 2)"
    using ofReal_exact [of "(g + 1) / 2"] g4 assms(2) le by simp
  have p2: "numMul (Num ((g + 1) / 2)) (Num ((g + 1) / 2)) = PosInf"
    using up by (simp add: ofReal_def)
  have "\<And>t. t \<in> set thetas \<Longrightarrow>
          numMul (numMul (Num 1) (threeParamLogistic t (Num 0) (Num 0) (Num g)))
                 (threeParamLogistic t (Num 0) (Num 0) (Num g)) = PosInf"
  proof -
    fix t assume "t \<in> set thetas"
    from thetas_finite [OF this] obtain x where x: "t = Num x" "\<bar>x\<bar> \<le> 12" by blast
    show "numMul (numMul (Num 1) (threeParamLogistic t (Num 0) (Num 0) (Num g)))
                 (threeParamLogistic t (Num 0) (Num 0) (Num g)) = PosInf"
      unfolding x(1) threeParamLogistic_huge_guess [OF x(2) g4 assms(2)] p1 p2 ..
  qed
  then show ?thesis by (simp add: likelihood_def Let_def)
qed

lemma sum_infinite:
  "acc = PosInf \<or> acc = NaN \<or> (\<exists>y. acc = Num y) \<Longrightarrow> us \<noteq> [] \<Longrightarrow>
   (\<forall>u \<in> set us. u = PosInf \<or> u = NaN) \<Longrightarrow>
   foldl numAdd acc us = PosInf \<or> foldl numAdd acc us = NaN"
proof (induction us arbitrary: acc)
  case Nil
  then show ?case by simp
next
  case (Cons u us)
  have step: "numAdd acc u = PosInf \<or> numAdd acc u = NaN"
    using Cons.prems(1,3) by auto
  show ?case
  proof (cases us)
    case Nil
    with step show ?thesis by simp
  next
    case (Cons v vs)
    then have "us \<noteq> []" by simp
    moreover have "numAdd acc u = PosInf \<or> numAdd acc u = NaN \<or> (\<exists>y. numAdd acc u = Num y)"
      using step by blast
    moreover have "\<forall>u \<in> set us. u = PosInf \<or> u = NaN" using Cons.prems(3) by simp
    ultimately have "foldl numAdd (numAdd acc u) us = PosInf \<or> foldl numAdd (numAdd acc u) us = NaN"
      by (intro Cons.IH)
    then show ?thesis by simp
  qed
qed

lemma eap_nan:
  "length ts = length qs \<Longrightarrow> qs \<noteq> [] \<Longrightarrow> (\<forall>q \<in> set qs. q = NaN) \<Longrightarrow>
   foldl (\<lambda>acc (theta, q). numAdd acc (numMul theta q)) acc (zip ts qs) = NaN"
proof (induction qs arbitrary: ts acc)
  case Nil
  then show ?case by simp
next
  case (Cons q qs)
  then obtain t ts' where ts: "ts = t # ts'" by (cases ts) auto
  have q: "q = NaN" using Cons.prems(3) by simp
  have step: "numAdd acc (numMul t q) = NaN"
    unfolding q by (cases t; cases acc) simp_all
  show ?case
  proof (cases qs)
    case Nil
    with step ts Cons.prems(1) show ?thesis by simp
  next
    case (Cons q' qs')
    have "foldl (\<lambda>acc (theta, q). numAdd acc (numMul theta q)) NaN (zip ts' qs) = NaN"
      using Cons.prems ts Cons by (intro Cons.IH) auto
    with step ts show ?thesis by simp
  qed
qed

lemma updateTheta_infinite_likelihood:
  assumes "rs \<noteq> []" "likelihood rs = map (\<lambda>t. PosInf) thetas"
  shows "updateTheta rs t0 = NaN"
proof -
  have len: "length prior = length thetas" by (simp add: prior_def)
  have un: "\<forall>u \<in> set (unnormalized rs). u = PosInf \<or> u = NaN"
  proof
    fix u assume "u \<in> set (unnormalized rs)"
    then obtain q where "q \<in> set prior" "u = numMul PosInf q"
      unfolding unnormalized_def assms(2) by (auto simp add: zip_map1 dest: set_zip_rightD)
    with prior_bounded [of q] show "u = PosInf \<or> u = NaN"
      by (auto simp add: scaleInf_def)
  qed
  have unlen: "length (unnormalized rs) = 41"
    unfolding unnormalized_def assms(2) by (simp add: len length_thetas)
  then have ne: "unnormalized rs \<noteq> []" by auto
  have s: "posteriorSum rs = PosInf \<or> posteriorSum rs = NaN"
    unfolding posteriorSum_def using ne un by (intro sum_infinite) auto
  then have guard: "\<not> numLess (posteriorSum rs) (Num (1 / 10 ^ 15))" by auto
  have post: "\<forall>q \<in> set (map (\<lambda>v. numDiv v (posteriorSum rs)) (unnormalized rs)). q = NaN"
    using un s by auto
  have "foldl (\<lambda>acc (theta, q). numAdd acc (numMul theta q)) (Num 0)
          (zip thetas (map (\<lambda>v. numDiv v (posteriorSum rs)) (unnormalized rs))) = NaN"
    using post ne unlen by (intro eap_nan) (simp_all add: length_thetas)
  with guard assms(1) show ?thesis
    by (simp add: updateTheta_def Let_def numMax_def numMin_def)
qed

lemma updateTheta_overflow_NaN:
  "updateTheta
     [\<lparr> item = \<lparr> item_id = ''q1'', irt_a = Num 0, irt_b = Num 0, irt_c = Num (10 ^ 200) \<rparr>,
        answered_correct = True \<rparr>,
      \<lparr> item = \<lparr> item_id = ''q2'', irt_a = Num 0, irt_b = Num 0, irt_c = Num (10 ^ 200) \<rparr>,
        answered_correct = True \<rparr>]
     (Num 0) = NaN"
proof -
  have "(10::real) ^ 200 \<le> 10 ^ 200" "(10::real) ^ 200 \<le> 10 ^ 299" by simp_all
  then show ?thesis
    by (intro updateTheta_infinite_likelihood likelihood_huge_guess) simp_all
qed

text \<open>
  C8. For every prior \<open>t0\<close>: \<open>updateTheta([], t0) = t0\<close>, and whenever the posterior mass
  over the grid is below \<open>1e-15\<close>, \<open>updateTheta(responses, t0) = t0\<close>: in both cases the
  result is the prior itself, so it is \<open>NaN\<close> only if the prior passed in is.
\<close>

theorem updateTheta_prior_on_empty_or_underflow:
  "updateTheta [] t0 = t0 \<and>
   (numLess (posteriorSum responses) (Num (1 / 10 ^ 15)) \<longrightarrow>
      updateTheta responses t0 = t0 \<and> (t0 \<noteq> NaN \<longrightarrow> updateTheta responses t0 \<noteq> NaN))"
  by (simp add: updateTheta_def Let_def)

theorem updateTheta_prior_on_empty_or_underflow_witness:
  "updateTheta [] (Num 0.7) = Num 0.7 \<and>
   numLess (posteriorSum (replicate 60 \<lparr> item = \<lparr> item_id = ''q1'', irt_a = Num 0,
                                                 irt_b = Num 0, irt_c = Num 0 \<rparr>,
                                         answered_correct = False \<rparr>))
           (Num (1 / 10 ^ 15)) \<and>
   updateTheta (replicate 60 \<lparr> item = \<lparr> item_id = ''q1'', irt_a = Num 0, irt_b = Num 0,
                                          irt_c = Num 0 \<rparr>, answered_correct = False \<rparr>)
               (Num 0.7) = Num 0.7 \<and>
   Num 0.7 \<noteq> NaN \<and>
   updateTheta (replicate 60 \<lparr> item = \<lparr> item_id = ''q1'', irt_a = Num 0, irt_b = Num 0,
                                          irt_c = Num 0 \<rparr>, answered_correct = False \<rparr>)
               (Num 0.7) \<noteq> NaN"
proof -
  obtain s where
    s: "posteriorSum (replicate 60 \<lparr> item = \<lparr> item_id = ''q1'', irt_a = Num 0, irt_b = Num 0,
                                               irt_c = Num 0 \<rparr>, answered_correct = False \<rparr>)
         = Num s"
       "s \<le> 41 * (1 / 2) ^ 60"
    using posteriorSum_coin_flips by blast
  have "(41::real) * (1 / 2) ^ 60 < 1 / 10 ^ 15" by (simp add: power_one_over)
  with s(2) have "s < 1 / 10 ^ 15" by linarith
  with s(1) updateTheta_prior_on_empty_or_underflow
    [of "Num 0.7" "replicate 60 \<lparr> item = \<lparr> item_id = ''q1'', irt_a = Num 0, irt_b = Num 0,
                                          irt_c = Num 0 \<rparr>, answered_correct = False \<rparr>"]
  show ?thesis by simp
qed

section \<open>Properties of the Louvain clustering\<close>

lemma update_fresh: "k \<notin> fst ` set al \<Longrightarrow> AList.update k v al = al @ [(k, v)]"
  by (induction al) auto

lemma initial_fold_distinct:
  "distinct ns \<Longrightarrow> set ns \<inter> fst ` set acc = {} \<Longrightarrow> length js = length ns \<Longrightarrow>
   foldl (\<lambda>communities (n, i). AList.update n (Some i) communities) acc (zip ns js)
     = acc @ zip ns (map Some js)"
proof (induction ns arbitrary: acc js)
  case Nil
  then show ?case by simp
next
  case (Cons n ns)
  then obtain j js' where js: "js = j # js'" by (cases js) auto
  have fresh: "n \<notin> fst ` set acc" using Cons.prems(2) by auto
  have step: "AList.update n (Some j) acc = acc @ [(n, Some j)]"
    using fresh by (rule update_fresh)
  have "set ns \<inter> fst ` set (acc @ [(n, Some j)]) = {}"
    using Cons.prems(1,2) by auto
  with Cons.IH [of "acc @ [(n, Some j)]" js'] Cons.prems js step
  show ?case by simp
qed

lemma initialCommunities_distinct:
  "distinct nodes \<Longrightarrow> initialCommunities nodes = zip nodes (map Some [0 ..< length nodes])"
  using initial_fold_distinct [of nodes "[]" "[0 ..< length nodes]"]
  by (simp add: initialCommunities_def)

lemma initial_fold_assigned:
  "length js = length ns \<Longrightarrow>
   (\<forall>n \<in> fst ` set acc. \<exists>c. map_of acc n = Some (Some c)) \<Longrightarrow>
   (\<forall>n \<in> set ns \<union> fst ` set acc. \<exists>c.
      map_of (foldl (\<lambda>communities (n, i). AList.update n (Some i) communities) acc (zip ns js)) n
        = Some (Some c))
   \<and> fst ` set (foldl (\<lambda>communities (n, i). AList.update n (Some i) communities) acc (zip ns js))
       = set ns \<union> fst ` set acc"
proof (induction ns arbitrary: acc js)
  case Nil
  then show ?case by simp
next
  case (Cons n ns)
  then obtain j js' where js: "js = j # js'" by (cases js) auto
  let ?acc = "AList.update n (Some j) acc"
  have a: "\<forall>m \<in> fst ` set ?acc. \<exists>c. map_of ?acc m = Some (Some c)"
    using Cons.prems(2) by (auto simp add: AList.update_conv' AList.dom_update)
  have l: "length js' = length ns" using Cons.prems(1) js by simp
  from Cons.IH [OF l a] show ?case
    by (simp add: js AList.dom_update)
qed

lemma initialCommunities_assigned:
  "(\<forall>n \<in> set nodes. \<exists>c. map_of (initialCommunities nodes) n = Some (Some c)) \<and>
   fst ` set (initialCommunities nodes) = set nodes"
  using initial_fold_assigned [of "[0 ..< length nodes]" nodes "[]"]
  by (simp add: initialCommunities_def)

lemma bestCommunity_defined:
  "totalWeight \<noteq> 0 \<Longrightarrow> m2 * m2 \<noteq> 0 \<Longrightarrow>
   \<exists>r. bestCommunity totalWeight m2 kI currentCom degSumInCom weightToCom best = Some r"
proof (induction weightToCom arbitrary: best)
  case Nil
  then show ?case by simp
next
  case (Cons e rest)
  obtain com kIinC where e: "e = (com, kIinC)" by (cases e)
  obtain bestGain bestCom where b: "best = (bestGain, bestCom)" by (cases best)
  from Cons show ?case
    by (simp add: e b jsDiv_def Let_def)
qed

lemma moveNode_defined:
  assumes "totalWeight \<noteq> 0" "m2 * m2 \<noteq> 0"
  shows "\<exists>st'. moveNode nodes adj degree totalWeight m2 st node = Some st' \<and>
           fst ` set (fst st) \<subseteq> fst ` set (fst st')"
proof -
  let ?cur = "communityOf (fst st) node"
  from bestCommunity_defined [OF assms] obtain g bc where
    "bestCommunity totalWeight m2 (getOr0 degree node) ?cur
       (degreeSums nodes degree (fst st)) (weightToCommunities adj (fst st) node) (0, ?cur)
      = Some (g, bc)"
    by (metis surj_pair)
  then show ?thesis
    by (cases st) (auto simp add: moveNode_def Let_def AList.dom_update)
qed

lemma sweep_defined:
  assumes "totalWeight \<noteq> 0" "m2 * m2 \<noteq> 0"
  shows "\<exists>st'. sweep nodes adj degree totalWeight m2 st ns = Some st' \<and>
           fst ` set (fst st) \<subseteq> fst ` set (fst st')"
proof (induction ns arbitrary: st)
  case Nil
  then show ?case by simp
next
  case (Cons n ns)
  from moveNode_defined [OF assms] obtain st1 where
    m: "moveNode nodes adj degree totalWeight m2 st n = Some st1"
       "fst ` set (fst st) \<subseteq> fst ` set (fst st1)"
    by blast
  from Cons.IH [of st1] obtain st2 where
    "sweep nodes adj degree totalWeight m2 st1 ns = Some st2"
    "fst ` set (fst st1) \<subseteq> fst ` set (fst st2)"
    by blast
  with m show ?case by auto
qed

lemma greedyPhase_defined:
  assumes "totalWeight \<noteq> 0" "m2 * m2 \<noteq> 0"
  shows "\<exists>communities' passes'.
           greedyPhase nodes adj degree totalWeight m2 improved maxIterations communities passes
             = Some (communities', passes') \<and>
           int passes' \<le> int passes + max 0 maxIterations \<and>
           fst ` set communities \<subseteq> fst ` set communities'"
  using assms
proof (induction nodes adj degree totalWeight m2 improved maxIterations communities passes
       rule: greedyPhase.induct)
  case (1 nodes adj degree totalWeight m2 improved maxIterations communities passes)
  show ?case
  proof (cases "improved \<and> maxIterations > 0")
    case False
    then show ?thesis by (auto simp add: max_def)
  next
    case True
    from sweep_defined [OF "1.prems"] obtain c1 i1 where
      s: "sweep nodes adj degree totalWeight m2 (communities, False) nodes = Some (c1, i1)"
         "fst ` set communities \<subseteq> fst ` set c1"
      by (metis fst_conv surj_pair)
    from "1.IH" [OF True s(1) refl "1.prems"] obtain c2 p2 where
      g: "greedyPhase nodes adj degree totalWeight m2 i1 (maxIterations - 1) c1 (passes + 1)
            = Some (c2, p2)"
         "int p2 \<le> int (passes + 1) + max 0 (maxIterations - 1)"
         "fst ` set c1 \<subseteq> fst ` set c2"
      by blast
    from True s g show ?thesis
      by (subst greedyPhase.simps) (auto simp add: max_def)
  qed
qed


lemma renumberEntry_entry:
  "\<exists>c. map_of (fst (renumberEntry st e)) (fst e) = Some (Some c)"
  by (cases "map_of (fst (snd st)) (snd e)")
     (auto simp add: renumberEntry_def Let_def AList.update_conv' split: prod.splits)

lemma renumberEntry_others:
  "n \<noteq> fst e \<Longrightarrow> map_of (fst (renumberEntry st e)) n = map_of (fst st) n"
  by (simp add: renumberEntry_def Let_def AList.update_conv' split: prod.splits)

lemma renumber_fold_assigned:
  "(\<forall>n \<in> G. \<exists>c. map_of (fst st) n = Some (Some c)) \<Longrightarrow>
   (\<forall>n \<in> G \<union> fst ` set es. \<exists>c. map_of (fst (foldl renumberEntry st es)) n = Some (Some c))"
proof (induction es arbitrary: st G)
  case Nil
  then show ?case by simp
next
  case (Cons e es)
  have "\<forall>n \<in> insert (fst e) G. \<exists>c. map_of (fst (renumberEntry st e)) n = Some (Some c)"
  proof
    fix n assume "n \<in> insert (fst e) G"
    then show "\<exists>c. map_of (fst (renumberEntry st e)) n = Some (Some c)"
      using Cons.prems renumberEntry_entry [of st e] renumberEntry_others [of n e st]
      by (cases "n = fst e") auto
  qed
  from Cons.IH [OF this] show ?case by simp
qed

lemma renumber_assigned:
  "\<forall>n \<in> fst ` set communities. \<exists>c. map_of (renumber communities) n = Some (Some c)"
  using renumber_fold_assigned [of "{}" "(communities, [], 0)" communities]
  by (simp add: renumber_def)


text \<open>The run of \<open>louvainCluster\<close> on any input: it ends with a result after at most 20
  passes of the greedy loop, no division by zero happens, and every node has a number.\<close>

lemma louvainRun_total:
  "\<exists>communities passes.
     louvainRun nodes edges = Some (communities, passes) \<and> passes \<le> 20 \<and>
     louvainCluster nodes edges = Some communities \<and>
     (\<forall>n \<in> set nodes. \<exists>c. map_of communities n = Some (Some c))"
proof (cases "foldl (\<lambda>s e. s + weight e) 0 edges = 0")
  case True
  then have "louvainRun nodes edges = Some (initialCommunities nodes, 0)"
    by (simp add: louvainRun_def)
  with initialCommunities_assigned [of nodes] show ?thesis
    by (simp add: louvainCluster_def)
next
  case False
  let ?tw = "foldl (\<lambda>s e. s + weight e) 0 edges"
  let ?adj = "adjacency nodes edges"
  have m2: "(2 * ?tw) * (2 * ?tw) \<noteq> 0" using False by simp
  from greedyPhase_defined [OF False m2, of nodes ?adj "degrees nodes ?adj" True 20
      "initialCommunities nodes" 0]
  obtain c1 p1 where
    g: "greedyPhase nodes ?adj (degrees nodes ?adj) ?tw (2 * ?tw) True 20
          (initialCommunities nodes) 0 = Some (c1, p1)"
       "p1 \<le> 20" "fst ` set (initialCommunities nodes) \<subseteq> fst ` set c1"
    by auto
  from g(1) False have run: "louvainRun nodes edges = Some (renumber c1, p1)"
    by (simp add: louvainRun_def Let_def)
  have "set nodes \<subseteq> fst ` set c1"
    using g(3) initialCommunities_assigned [of nodes] by simp
  with renumber_assigned [of c1]
  have "\<forall>n \<in> set nodes. \<exists>c. map_of (renumber c1) n = Some (Some c)" by blast
  with run g(2) show ?thesis
    by (simp add: louvainCluster_def)
qed

text \<open>Two pairs of nodes, each joined by an edge of weight 1: the first pass merges each
  pair, the second moves nothing, and the loop stops after 2 passes.\<close>

lemma louvainRun_two_pairs:
  "louvainRun [''a'', ''b'', ''c'', ''d'']
     [\<lparr> source = ''a'', target = ''b'', weight = 1 \<rparr>,
      \<lparr> source = ''c'', target = ''d'', weight = 1 \<rparr>] =
   Some ([(''a'', Some 0), (''b'', Some 0), (''c'', Some 1), (''d'', Some 1)], 2)"
  by code_simp

text \<open>
  C4. For every node list and edge list, \<open>louvainCluster\<close> returns: the greedy loop runs at
  most 20 passes, the run yields a result (\<open>Some\<close>, so no division by zero either), and the
  result gives every node a community number.
\<close>

theorem louvainCluster_terminates_within_20_passes:
  "\<exists>communities passes.
     louvainRun nodes edges = Some (communities, passes) \<and> passes \<le> 20 \<and>
     louvainCluster nodes edges = Some communities \<and>
     (\<forall>n \<in> set nodes. \<exists>c. map_of communities n = Some (Some c))"
  by (rule louvainRun_total)

theorem louvainCluster_terminates_within_20_passes_witness:
  "louvainRun [''a'', ''b'', ''c'', ''d'']
     [\<lparr> source = ''a'', target = ''b'', weight = 1 \<rparr>,
      \<lparr> source = ''c'', target = ''d'', weight = 1 \<rparr>] =
     Some ([(''a'', Some 0), (''b'', Some 0), (''c'', Some 1), (''d'', Some 1)], 2) \<and>
   (2::nat) \<le> 20 \<and>
   ''c'' \<in> set [''a'', ''b'', ''c'', ''d''] \<and>
   map_of [(''a'', Some 0), (''b'', Some 0), (''c'', Some 1), (''d'', Some (1::nat))] ''c''
     = Some (Some 1)"
  using louvainCluster_terminates_within_20_passes
    [of "[''a'', ''b'', ''c'', ''d'']"
        "[\<lparr> source = ''a'', target = ''b'', weight = 1 \<rparr>,
          \<lparr> source = ''c'', target = ''d'', weight = 1 \<rparr>]"]
    louvainRun_two_pairs
  by simp

text \<open>
  C5, as stated for every node list, fails when the list names a node twice: the second
  \<open>communities.set\<close> replaces the first, so \<open>louvainCluster(['a', 'a'], [])\<close> (total weight 0)
  gives the one node \<open>a\<close> the community 1. The ids in use are \<open>{1}\<close>, not a range that
  starts at 0.
\<close>

theorem louvainCluster_zero_weight_duplicate_node:
  "foldl (\<lambda>s e. s + weight e) 0 ([] :: WeightedEdge list) = 0 \<and>
   louvainCluster [''a'', ''a''] [] = Some [(''a'', Some 1)]"
  by (simp add: louvainCluster_def louvainRun_def initialCommunities_def)

text \<open>
  C5, amended. For every list of distinct nodes and every edge list whose total weight is 0,
  \<open>louvainCluster\<close> returns, without a pass of the greedy loop and without a division, the
  map that sends the node at position \<open>i\<close> to community \<open>i\<close>: each node alone in its
  community, the ids being \<open>0 .. n-1\<close>.
\<close>

theorem louvainCluster_zero_weight_singletons:
  "foldl (\<lambda>s e. s + weight e) 0 edges = 0 \<Longrightarrow> distinct nodes \<Longrightarrow>
   louvainRun nodes edges = Some (zip nodes (map Some [0 ..< length nodes]), 0) \<and>
   louvainCluster nodes edges = Some (zip nodes (map Some [0 ..< length nodes]))"
  by (simp add: louvainRun_def louvainCluster_def initialCommunities_distinct)

theorem louvainCluster_zero_weight_singletons_witness:
  "foldl (\<lambda>s e. s + weight e) 0 [\<lparr> source = ''a'', target = ''b'', weight = 0 \<rparr>] = 0 \<and>
   distinct [''a'', ''b'', ''c''] \<and>
   louvainCluster [''a'', ''b'', ''c''] [\<lparr> source = ''a'', target = ''b'', weight = 0 \<rparr>] =
     Some [(''a'', Some 0), (''b'', Some 1), (''c'', Some 2)]"
  using louvainCluster_zero_weight_singletons
    [of "[\<lparr> source = ''a'', target = ''b'', weight = 0 \<rparr>]" "[''a'', ''b'', ''c'']"]
  by (simp add: upt_rec)


section \<open>Properties of the graph builder\<close>

lemma strengthEntry_range: "strengthEntry x y = Some v \<Longrightarrow> 0 \<le> v \<and> v \<le> 1"
  by (auto simp add: strengthEntry_def PREREQUISITE_STRENGTH_def split: option.splits if_splits)

lemma prerequisiteStrength_range:
  "prerequisiteStrength conceptA conceptB = Some v \<Longrightarrow> 0 \<le> v \<and> v \<le> 1"
  by (auto simp add: prerequisiteStrength_def Let_def split: option.splits if_splits
           dest: strengthEntry_range)

lemma countSession_fold_le:
  "fst counts \<le> snd counts \<Longrightarrow>
   fst (foldl (countSession a b) counts sessions) \<le> snd (foldl (countSession a b) counts sessions)"
proof (induction sessions arbitrary: counts)
  case Nil
  then show ?case by simp
next
  case (Cons session sessions)
  have "fst (countSession a b counts session) \<le> snd (countSession a b counts session)"
    using Cons.prems by (simp add: countSession_def Let_def)
  from Cons.IH [OF this] show ?case by simp
qed

lemma coOccurrenceRate_range:
  "0 \<le> coOccurrenceRate conceptA conceptB logs \<and> coOccurrenceRate conceptA conceptB logs \<le> 1"
proof -
  let ?r = "foldl (countSession (toLowerCase conceptA) (toLowerCase conceptB)) (0, 0)
              (foldl addToSessions [] logs)"
  have "fst ?r \<le> snd ?r" by (rule countSession_fold_le) simp
  then show ?thesis
    by (cases ?r) (simp add: coOccurrenceRate_def Let_def)
qed

lemma confusionCorrelation_nonneg: "0 \<le> confusionCorrelation conceptA conceptB logs"
  by (simp add: confusionCorrelation_def Let_def)

text \<open>
  C1. The prerequisite strength and the co-occurrence rate lie in \<open>[0,1]\<close> (the lemmas
  above), and the confusion correlation is never negative. It is not bounded by 1, though:
  the function divides the number of wrong answers on B (in the days on which A was answered
  wrongly) by the number of wrong answers on A. One wrong answer on 'limits' and two on
  'derivatives', all on day 0, give confusion correlation 2 and edge weight
  \<open>0.5 * 0.95 + 0.3 * 1 + 0.2 * 2 = 1.175\<close>, and the graph builder stores the edge with
  these values.
\<close>

theorem confusionCorrelation_and_edge_weight_above_one:
  "confusionCorrelation ''limits'' ''derivatives''
     [\<lparr> concept = ''limits'', category = ''math'', isCorrect = False, responseTimeMs = 9000,
        masteryPL = 0.3, timestamp = 0 \<rparr>,
      \<lparr> concept = ''derivatives'', category = ''math'', isCorrect = False,
        responseTimeMs = 9000, masteryPL = 0.3, timestamp = 60000 \<rparr>,
      \<lparr> concept = ''derivatives'', category = ''math'', isCorrect = False,
        responseTimeMs = 9000, masteryPL = 0.3, timestamp = 120000 \<rparr>] = 2 \<and>
   calculateEdgeWeight ''limits'' ''derivatives''
     [\<lparr> concept = ''limits'', category = ''math'', isCorrect = False, responseTimeMs = 9000,
        masteryPL = 0.3, timestamp = 0 \<rparr>,
      \<lparr> concept = ''derivatives'', category = ''math'', isCorrect = False,
        responseTimeMs = 9000, masteryPL = 0.3, timestamp = 60000 \<rparr>,
      \<lparr> concept = ''derivatives'', category = ''math'', isCorrect = False,
        responseTimeMs = 9000, masteryPL = 0.3, timestamp = 120000 \<rparr>] = Some (47 / 40) \<and>
   buildEdges
     [\<lparr> concept = ''limits'', category = ''math'', isCorrect = False, responseTimeMs = 9000,
        masteryPL = 0.3, timestamp = 0 \<rparr>,
      \<lparr> concept = ''derivatives'', category = ''math'', isCorrect = False,
        responseTimeMs = 9000, masteryPL = 0.3, timestamp = 60000 \<rparr>,
      \<lparr> concept = ''derivatives'', category = ''math'', isCorrect = False,
        responseTimeMs = 9000, masteryPL = 0.3, timestamp = 120000 \<rparr>]
     [''limits'', ''derivatives''] =
     Some [\<lparr> source = ''limits'', target = ''derivatives'', weight = 47 / 40,
             edge_prerequisiteStrength = 19 / 20, edge_coOccurrenceRate = 1,
             edge_confusionCorrelation = 2, edge_type = Prerequisite \<rparr>]"
  by code_simp

text \<open>Every entry of \<open>conceptMap\<close> holds at least one log, and the keys are distinct.\<close>

lemma set_update_distinct:
  "distinct (map fst al) \<Longrightarrow>
   set (AList.update k v al) = insert (k, v) {e \<in> set al. fst e \<noteq> k}"
  by (induction al) (auto simp add: rev_image_eqI)

lemma addToConceptMap_nonempty:
  assumes "distinct (map fst acc)" "\<forall>e \<in> set acc. snd e \<noteq> []"
  shows "distinct (map fst (addToConceptMap acc l)) \<and>
         (\<forall>e \<in> set (addToConceptMap acc l). snd e \<noteq> [])"
proof -
  let ?key = "toLowerCase (concept l)"
  let ?m1 = "if map_of acc ?key = None then AList.update ?key [] acc else acc"
  have d1: "distinct (map fst ?m1)"
    using assms(1) by (simp add: AList.distinct_update)
  have s1: "\<forall>e \<in> set ?m1. fst e \<noteq> ?key \<longrightarrow> snd e \<noteq> []"
    using assms by (auto simp add: set_update_distinct)
  show ?thesis
  proof (cases "map_of ?m1 ?key")
    case None
    then have "map_of acc ?key \<noteq> None"
      by (auto simp add: AList.update_conv' split: if_splits)
    with None show ?thesis by (auto simp add: addToConceptMap_def Let_def)
  next
    case (Some ls)
    then have "addToConceptMap acc l = AList.update ?key (ls @ [l]) ?m1"
      by (simp add: addToConceptMap_def Let_def)
    with d1 s1 show ?thesis
      by (auto simp add: set_update_distinct AList.distinct_update
               simp del: map_of_eq_None_iff)
  qed
qed

lemma conceptMap_fold_nonempty:
  "distinct (map fst acc) \<Longrightarrow> (\<forall>e \<in> set acc. snd e \<noteq> []) \<Longrightarrow>
   distinct (map fst (foldl addToConceptMap acc logs)) \<and>
   (\<forall>e \<in> set (foldl addToConceptMap acc logs). snd e \<noteq> [])"
proof (induction logs arbitrary: acc)
  case Nil
  then show ?case by simp
next
  case (Cons l logs)
  from addToConceptMap_nonempty [OF Cons.prems, of l] Cons.IH [of "addToConceptMap acc l"]
  show ?case by simp
qed

lemma conceptMap_entries_nonempty:
  "distinct (map fst (buildConceptMap logs)) \<and>
   (\<forall>e \<in> set (buildConceptMap logs). snd e \<noteq> [])"
  using conceptMap_fold_nonempty [of "[]" logs] by (simp add: buildConceptMap_def)

section \<open>Determinism and the clock\<close>

text \<open>Without an inherited key among the concept names, \<open>buildGraph\<close> returns a graph.\<close>

lemma toLowerChar_idem: "toLowerChar (toLowerChar ch) = toLowerChar ch"
  by (auto simp add: toLowerChar_def Let_def)

lemma toLowerCase_idem: "toLowerCase (toLowerCase s) = toLowerCase s"
  by (simp add: toLowerCase_def toLowerChar_idem)

lemma addToConceptMap_keys:
  "fst ` set (addToConceptMap acc l) = insert (toLowerCase (concept l)) (fst ` set acc)"
  by (auto simp add: addToConceptMap_def Let_def AList.dom_update AList.update_conv'
           split: option.splits if_splits)

lemma conceptMap_fold_keys:
  "fst ` set (foldl addToConceptMap acc logs) =
   fst ` set acc \<union> (\<lambda>l. toLowerCase (concept l)) ` set logs"
  by (induction logs arbitrary: acc) (auto simp add: addToConceptMap_keys)

lemma conceptMap_keys:
  "set (map fst (buildConceptMap logs)) = (\<lambda>l. toLowerCase (concept l)) ` set logs"
  using conceptMap_fold_keys [of "[]" logs] by (simp add: buildConceptMap_def)

lemma conceptPairs_members:
  "(x, y) \<in> set (conceptPairs ids) \<Longrightarrow> x \<in> set ids \<and> y \<in> set ids"
  by (auto simp add: conceptPairs_def)

lemma addEdge_defined:
  "\<not> inheritedKey (toLowerCase (fst pair)) \<Longrightarrow> \<not> inheritedKey (toLowerCase (snd pair)) \<Longrightarrow>
   \<exists>st'. addEdge logs st pair = Some st'"
  by (simp add: addEdge_def calculateEdgeWeight_def prerequisiteStrength_def Let_def
           split: option.splits)

lemma addEdges_defined:
  "(\<forall>pair \<in> set pairs. \<not> inheritedKey (toLowerCase (fst pair)) \<and>
                         \<not> inheritedKey (toLowerCase (snd pair))) \<Longrightarrow>
   \<exists>st'. addEdges logs st pairs = Some st'"
proof (induction pairs arbitrary: st)
  case Nil
  then show ?case by simp
next
  case (Cons pair pairs)
  from Cons.prems obtain st1 where "addEdge logs st pair = Some st1"
    using addEdge_defined [of pair logs st] by auto
  with Cons.IH [of st1] Cons.prems show ?case by simp
qed

lemma buildEdges_defined:
  assumes "\<forall>l \<in> set logs. \<not> inheritedKey (toLowerCase (concept l))"
  shows "\<exists>edges. buildEdges logs (map fst (buildConceptMap logs)) = Some edges"
proof -
  have "\<forall>pair \<in> set (conceptPairs (map fst (buildConceptMap logs))).
          \<not> inheritedKey (toLowerCase (fst pair)) \<and> \<not> inheritedKey (toLowerCase (snd pair))"
  proof
    fix pair assume "pair \<in> set (conceptPairs (map fst (buildConceptMap logs)))"
    then have "(fst pair, snd pair) \<in> set (conceptPairs (map fst (buildConceptMap logs)))"
      by simp
    from conceptPairs_members [OF this]
    have "fst pair \<in> set (map fst (buildConceptMap logs))"
         "snd pair \<in> set (map fst (buildConceptMap logs))"
      by blast+
    then obtain l1 l2 where "l1 \<in> set logs" "fst pair = toLowerCase (concept l1)"
                            "l2 \<in> set logs" "snd pair = toLowerCase (concept l2)"
      unfolding conceptMap_keys by blast
    with assms show "\<not> inheritedKey (toLowerCase (fst pair)) \<and>
                     \<not> inheritedKey (toLowerCase (snd pair))"
      by (simp add: toLowerCase_idem)
  qed
  from addEdges_defined [OF this] show ?thesis
    by (auto simp add: buildEdges_def)
qed

lemma buildGraph_defined:
  assumes "\<forall>l \<in> set logs. \<not> inheritedKey (toLowerCase (concept l))"
  shows "\<exists>g. buildGraph now logs = Some g"
proof -
  from buildEdges_defined [OF assms] obtain edges where
    e: "buildEdges logs (map fst (buildConceptMap logs)) = Some edges" by blast
  obtain cs where
    "louvainCluster (map fst (buildConceptMap logs))
       (map (\<lambda>e. \<lparr> source = source e, target = target e, weight = weight e \<rparr>) edges) = Some cs"
    using louvainRun_total by blast
  with e show ?thesis by (simp add: buildGraph_def Let_def)
qed

lemma toLowerCase_a: "toLowerCase ''a'' = ''a''"
  by (simp add: toLowerCase_def toLowerChar_def)

text \<open>
  C3, as stated, fails: \<open>updateStability\<close> and \<open>buildGraph\<close> read \<open>Date.now()\<close>. Two calls of
  \<open>updateStability(state, true)\<close> on the same state, made at clock readings 0 and 1, differ
  (in \<open>lastReviewMs\<close>); two calls of \<open>buildGraph\<close> on the same one-log list, made a day
  apart, differ (in the node's effective mastery).
\<close>

theorem updateStability_buildGraph_depend_on_clock:
  "updateStability 0 \<lparr> pL = 0.3, stability = 1, reviewCount = 0, lastReviewMs = 0 \<rparr> True \<noteq>
   updateStability 1 \<lparr> pL = 0.3, stability = 1, reviewCount = 0, lastReviewMs = 0 \<rparr> True \<and>
   buildGraph 0 [\<lparr> concept = ''a'', category = ''math'', isCorrect = True,
                   responseTimeMs = 1000, masteryPL = 1, timestamp = 0 \<rparr>] \<noteq>
   buildGraph 86400000 [\<lparr> concept = ''a'', category = ''math'', isCorrect = True,
                          responseTimeMs = 1000, masteryPL = 1, timestamp = 0 \<rparr>]"
proof
  show "updateStability 0 \<lparr> pL = 0.3, stability = 1, reviewCount = 0, lastReviewMs = 0 \<rparr> True \<noteq>
        updateStability 1 \<lparr> pL = 0.3, stability = 1, reviewCount = 0, lastReviewMs = 0 \<rparr> True"
    by (simp add: updateStability_def Let_def)
next
  show "buildGraph 0 [\<lparr> concept = ''a'', category = ''math'', isCorrect = True,
                        responseTimeMs = 1000, masteryPL = 1, timestamp = 0 \<rparr>] \<noteq>
        buildGraph 86400000 [\<lparr> concept = ''a'', category = ''math'', isCorrect = True,
                               responseTimeMs = 1000, masteryPL = 1, timestamp = 0 \<rparr>]"
    by (simp add: buildGraph_def buildConceptMap_def buildEdges_def addToConceptMap_def
          toLowerCase_def toLowerChar_def conceptPairs_def louvainCluster_def louvainRun_def
          initialCommunities_def degreeCounts_def buildNode_def Let_def)
qed

text \<open>
  C3, amended. With the clock reading made an argument, the two operations are functions of
  their arguments and that reading, and the reading reaches little of the result:
  \<open>updateStability(state, false)\<close> does not depend on it; of \<open>updateStability(state, true)\<close>
  only \<open>lastReviewMs\<close> does; of \<open>buildGraph(logs)\<close> the edges and, node by node, the id,
  name, category, mastery, community, degree and size are the same at every reading (only
  effective mastery and colour are computed from the forgetting term, which reads the
  clock). And \<open>buildGraph\<close> does return a graph at every reading, for logs whose concept
  names are not inherited keys.
\<close>

theorem updateStability_buildGraph_clock_free_parts:
  "updateStability now1 s False = updateStability now2 s False \<and>
   (updateStability now1 s True)\<lparr> lastReviewMs := t \<rparr> =
     (updateStability now2 s True)\<lparr> lastReviewMs := t \<rparr> \<and>
   map_option graph_edges (buildGraph now1 logs) =
     map_option graph_edges (buildGraph now2 logs) \<and>
   map_option (\<lambda>g. map (\<lambda>n. (node_id n, node_name n, node_category n, node_masteryPL n,
                               node_community n, node_degree n, node_size n))
                        (graph_nodes g))
              (buildGraph now1 logs) =
   map_option (\<lambda>g. map (\<lambda>n. (node_id n, node_name n, node_category n, node_masteryPL n,
                               node_community n, node_degree n, node_size n))
                        (graph_nodes g))
              (buildGraph now2 logs) \<and>
   ((\<forall>l \<in> set logs. \<not> inheritedKey (toLowerCase (concept l))) \<longrightarrow>
      (\<exists>g. buildGraph now1 logs = Some g))"
proof (intro conjI impI)
  show "updateStability now1 s False = updateStability now2 s False"
    by (simp add: updateStability_def)
next
  show "(updateStability now1 s True)\<lparr> lastReviewMs := t \<rparr> =
        (updateStability now2 s True)\<lparr> lastReviewMs := t \<rparr>"
    by (simp add: updateStability_def Let_def)
next
  show "map_option graph_edges (buildGraph now1 logs) =
        map_option graph_edges (buildGraph now2 logs)"
    by (simp add: buildGraph_def Let_def split: option.splits)
next
  show "map_option (\<lambda>g. map (\<lambda>n. (node_id n, node_name n, node_category n, node_masteryPL n,
                                    node_community n, node_degree n, node_size n))
                             (graph_nodes g))
                   (buildGraph now1 logs) =
        map_option (\<lambda>g. map (\<lambda>n. (node_id n, node_name n, node_category n, node_masteryPL n,
                                    node_community n, node_degree n, node_size n))
                             (graph_nodes g))
                   (buildGraph now2 logs)"
    by (simp add: buildGraph_def Let_def buildNode_def getNodeState_def
             split: option.splits prod.splits)
next
  assume "\<forall>l \<in> set logs. \<not> inheritedKey (toLowerCase (concept l))"
  then show "\<exists>g. buildGraph now1 logs = Some g" by (rule buildGraph_defined)
qed

theorem updateStability_buildGraph_clock_free_parts_witness:
  "\<not> inheritedKey (toLowerCase (concept \<lparr> concept = ''a'', category = ''math'',
                                           isCorrect = True, responseTimeMs = 1000,
                                           masteryPL = 1, timestamp = 0 \<rparr>)) \<and>
   buildGraph 86400000 [\<lparr> concept = ''a'', category = ''math'', isCorrect = True,
                          responseTimeMs = 1000, masteryPL = 1, timestamp = 0 \<rparr>] \<noteq> None"
  using updateStability_buildGraph_clock_free_parts
    [where ?now1.0 = 86400000 and ?now2.0 = 0 and
       logs = "[\<lparr> concept = ''a'', category = ''math'', isCorrect = True,
                   responseTimeMs = 1000, masteryPL = 1, timestamp = 0 \<rparr>]"]
  by (simp add: toLowerCase_a inheritedKey_def)

end
